theory Spec2Isabelle
  imports
    Main
    "HOL-Library.AList"
    "HOL-Library.Char_ord"
    "HOL-Library.List_Lexorder"
    "HOL-Library.Multiset"
begin

section \<open>Code generation of loopy: the state, the vectorization fallback, the drivers\<close>

text \<open>
  The theory embeds \<^verbatim>\<open>loopy/codegen/__init__.py\<close>. A field \<open>f\<close> of a Python
  class is written with a short prefix naming the class (\<open>cgs_f\<close> for
  \<^verbatim>\<open>CodeGenerationState\<close>, \<open>knl_f\<close> for \<^verbatim>\<open>LoopKernel\<close>, \<open>tu_f\<close> for
  \<^verbatim>\<open>TranslationUnit\<close>, \<open>cgr_f\<close> for \<^verbatim>\<open>CodeGenerationResult\<close>, \<open>tcgr_f\<close> for
  \<^verbatim>\<open>TranslationUnitCodeGenerationResult\<close>), since several classes share field names.
  Exceptions are values of the type \<open>error\<close>; a function that may raise returns
  \<open>error + 'a\<close> with \<open>Inl\<close> for the exception. Code that has effects outside its
  arguments (the emission callbacks, the pipeline stages, the warning channel) threads a
  world \<open>'w\<close> and returns it updated, also when it raises.
\<close>

subsection \<open>Exceptions\<close>

datatype error =
    LoopyError string
  | UnvectorizableError string
  | AssertionError
  | IndexError
  | KeyError
  | ValueError
  | AttributeError
  | OtherError string

subsection \<open>Symbolic expressions and the constraint sets of isl\<close>

text \<open>
  The expressions of pymbolic and the sets, spaces and affine forms of isl are external
  libraries. An affine form is a list of named coefficients and a constant; a constraint
  set is its parameter names, its set dimensions (named or not yet named) and the
  conjunction of its constraints.
\<close>

datatype expression =
    Constant int
  | Variable string
  | Sum expression expression
  | Product expression expression

record isl_aff =
  aff_coeffs :: "(string \<times> int) list"
  aff_const :: int

datatype isl_constraint = Equality isl_aff | Inequality isl_aff

record isl_set =
  param_names :: "string list"
  set_dim_names :: "string option list"
  constraints :: "isl_constraint list"

text \<open>\<^verbatim>\<open>isl.Aff.zero_on_domain(isl.Space.params_alloc(ctx, 0)) + i\<close>: the constant \<open>i\<close>.\<close>

definition aff_constant :: "int \<Rightarrow> isl_aff" where
  "aff_constant i = \<lparr>aff_coeffs = [], aff_const = i\<rparr>"

text \<open>The value of an affine form at a point, and whether a point meets a constraint.\<close>

definition aff_eval :: "(string \<Rightarrow> int) \<Rightarrow> isl_aff \<Rightarrow> int" where
  "aff_eval v a = sum_list (map (\<lambda>(n, c). c * v n) (aff_coeffs a)) + aff_const a"

fun constraint_holds :: "(string \<Rightarrow> int) \<Rightarrow> isl_constraint \<Rightarrow> bool" where
  "constraint_holds v (Equality a) = (aff_eval v a = 0)"
| "constraint_holds v (Inequality a) = (0 \<le> aff_eval v a)"

text \<open>\<^verbatim>\<open>space.get_var_dict()\<close>: the names of the parameters and of the named set dimensions.\<close>

definition get_var_dict :: "isl_set \<Rightarrow> string list" where
  "get_var_dict d =
     param_names d @ concat (map (\<lambda>n. case n of None \<Rightarrow> [] | Some x \<Rightarrow> [x]) (set_dim_names d))"

text \<open>\<^verbatim>\<open>s.dim(isl.dim_type.set)\<close>, \<^verbatim>\<open>s.add_dims(isl.dim_type.set, n)\<close> (the new dimensions
  come last and have no name), \<^verbatim>\<open>s.set_dim_name(isl.dim_type.set, pos, name)\<close> and
  \<^verbatim>\<open>s.add_constraint(cns)\<close>.\<close>

definition dim_set :: "isl_set \<Rightarrow> nat" where
  "dim_set d = length (set_dim_names d)"

definition add_dims :: "isl_set \<Rightarrow> nat \<Rightarrow> isl_set" where
  "add_dims d n = d\<lparr>set_dim_names := set_dim_names d @ replicate n None\<rparr>"

definition set_dim_name :: "isl_set \<Rightarrow> nat \<Rightarrow> string \<Rightarrow> isl_set" where
  "set_dim_name d pos name = d\<lparr>set_dim_names := (set_dim_names d)[pos := Some name]\<rparr>"

definition add_constraint :: "isl_set \<Rightarrow> isl_constraint \<Rightarrow> isl_set" where
  "add_constraint d c = d\<lparr>constraints := constraints d @ [c]\<rparr>"

text \<open>\<^verbatim>\<open>isl.Constraint.equality_from_aff(a)\<close>: the constraint \<open>a = 0\<close>.\<close>

definition equality_from_aff :: "isl_aff \<Rightarrow> isl_constraint" where
  "equality_from_aff a = Equality a"

text \<open>
  Modelled from the spec: \<^verbatim>\<open>loopy.isl_helpers.iname_rel_aff\<close> is not among the sources.
  The spec says that \<^verbatim>\<open>fix\<close> adds the equality \<^verbatim>\<open>iname == affine_expr\<close>; with
  \<^verbatim>\<open>equality_from_aff\<close> making \<open>a = 0\<close> of \<open>a\<close>, the helper returns the affine form
  \<open>iname - aff\<close>.
\<close>

definition iname_rel_aff :: "string \<Rightarrow> isl_aff \<Rightarrow> isl_aff" where
  "iname_rel_aff iname aff =
     \<lparr>aff_coeffs = (iname, 1) # map (\<lambda>(n, c). (n, - c)) (aff_coeffs aff),
      aff_const = - aff_const aff\<rparr>"

text \<open>
  Modelled from the spec: \<^verbatim>\<open>loopy.symbolic.pw_aff_to_expr\<close> is not among the sources.
  The spec says that \<^verbatim>\<open>fix\<close> binds the iname to the affine expression; the helper
  returns the expression that denotes the affine form, a constant form giving the
  constant.
\<close>

definition pw_aff_to_expr :: "isl_aff \<Rightarrow> expression" where
  "pw_aff_to_expr aff =
     foldl (\<lambda>e (n, c). Sum e (Product (Constant c) (Variable n)))
       (Constant (aff_const aff)) (aff_coeffs aff)"

subsection \<open>Targets, kernels, callables\<close>

text \<open>
  \<^verbatim>\<open>TargetBase\<close>: a concrete target, whose two builder methods each return an AST
  builder (of the opaque type \<open>'b\<close>).
\<close>

record 'b TargetBase =
  tgt_host_program_name_prefix :: string
  tgt_host_program_name_suffix :: string
  get_host_ast_builder :: 'b
  get_device_ast_builder :: 'b

text \<open>
  Modelled from the spec: \<^verbatim>\<open>loopy.kernel.KernelState\<close> is not among the sources; the
  spec gives the enumeration as initial < preprocessed < linearized.
\<close>

datatype KernelState = INITIAL | PREPROCESSED | LINEARIZED

fun state_rank :: "KernelState \<Rightarrow> nat" where
  "state_rank INITIAL = 0"
| "state_rank PREPROCESSED = 1"
| "state_rank LINEARIZED = 2"

text \<open>A loopy type, as far as code generation looks at it: \<^verbatim>\<open>involves_complex()\<close>.\<close>

record LoopyType =
  dtype_name :: string
  involves_complex :: bool

text \<open>A preamble is a pair of a priority and a text.\<close>

type_synonym preamble = "int \<times> string"

text \<open>
  \<^verbatim>\<open>LoopKernel\<close>, by the attributes that the code generator reads. The \<^verbatim>\<open>dtype\<close> of
  an argument or temporary is \<open>None\<close> while type inference has not resolved it.
  \<open>knl_callees\<close> lists the callable ids that the instructions of the kernel call;
  preamble generators are opaque (\<open>'pg\<close>), helper objects too (\<open>'o\<close>).
\<close>

record ('b, 'pg, 'o) LoopKernel =
  knl_name :: string
  knl_state :: KernelState
  knl_target :: "'b TargetBase"
  knl_args :: "LoopyType option list"
  knl_temporary_variables :: "(string \<times> LoopyType option) list"
  knl_assumptions :: isl_set
  knl_linearization :: "string list option"
  knl_preambles :: "preamble list"
  knl_preamble_generators :: "'pg list"
  knl_index_dtype :: LoopyType
  knl_all_inames :: "string list"
  knl_callees :: "string list"
  get_var_name_generator :: 'o

text \<open>
  \<^verbatim>\<open>InKernelCallable\<close>: a kernel (\<^verbatim>\<open>CallableKernel\<close>, with its \<^verbatim>\<open>subkernel\<close>) or an
  opaque library function.
\<close>

datatype ('b, 'pg, 'o) InKernelCallable =
    CallableKernel "('b, 'pg, 'o) LoopKernel"
  | ScalarCallable string

fun is_CallableKernel :: "('b, 'pg, 'o) InKernelCallable \<Rightarrow> bool" where
  "is_CallableKernel (CallableKernel k) = True"
| "is_CallableKernel (ScalarCallable n) = False"

text \<open>A callables table is a dictionary; its iteration order is the order of the list.\<close>

type_synonym ('b, 'pg, 'o) CallablesTable = "(string \<times> ('b, 'pg, 'o) InKernelCallable) list"

subsection \<open>The code generation state\<close>

record VectorizationInfo =
  vec_iname :: string
  vec_length :: int

record SeenFunction =
  sf_name :: string
  sf_c_name :: string
  sf_arg_dtypes :: "LoopyType list"
  sf_result_dtypes :: "LoopyType list"

record ('b, 'pg, 'o) CodeGenerationState =
  cgs_kernel :: "('b, 'pg, 'o) LoopKernel"
  cgs_target :: "'b TargetBase"
  cgs_implemented_domain :: isl_set
  cgs_implemented_predicates :: "expression set"
  cgs_seen_dtypes :: "LoopyType set"
  cgs_seen_functions :: "SeenFunction set"
  cgs_seen_atomic_dtypes :: "LoopyType set"
  cgs_var_subst_map :: "string \<rightharpoonup> expression"
  cgs_allow_complex :: bool
  cgs_callables_table :: "('b, 'pg, 'o) CallablesTable"
  cgs_is_entrypoint :: bool
  cgs_var_name_generator :: 'o
  cgs_is_generating_device_code :: bool
  cgs_gen_program_name :: string
  cgs_schedule_index_end :: nat
  cgs_codegen_cache_manager :: 'o
  cgs_vectorization_info :: "VectorizationInfo option"

text \<open>\<^verbatim>\<open>copy_and_assign\<close>: a copy with the variable \<open>name\<close> fixed to \<open>value\<close>.\<close>

definition copy_and_assign ::
  "('b, 'pg, 'o) CodeGenerationState \<Rightarrow> string \<Rightarrow> expression \<Rightarrow> ('b, 'pg, 'o) CodeGenerationState"
where
  "copy_and_assign self name val = self\<lparr>cgs_var_subst_map := (cgs_var_subst_map self)(name \<mapsto> val)\<rparr>"

text \<open>
  \<^verbatim>\<open>CodeGenerationState.fix\<close>. In the source the position given to
  \<^verbatim>\<open>set_dim_name\<close> is the number of set dimensions before \<^verbatim>\<open>add_dims\<close>, that is the
  index of the one added.
\<close>

definition fix_cgs ::
  "('b, 'pg, 'o) CodeGenerationState \<Rightarrow> string \<Rightarrow> isl_aff \<Rightarrow> ('b, 'pg, 'o) CodeGenerationState"
where
  "fix_cgs self iname aff =
     (let old_impl_domain = cgs_implemented_domain self;
          new_impl_domain =
            (if iname \<notin> set (get_var_dict old_impl_domain)
             then set_dim_name (add_dims old_impl_domain 1) (dim_set old_impl_domain) iname
             else old_impl_domain);
          iname_plus_lb_aff = iname_rel_aff iname aff;
          cns = equality_from_aff iname_plus_lb_aff;
          expr = pw_aff_to_expr aff;
          new_impl_domain = add_constraint new_impl_domain cns
      in (copy_and_assign self iname expr)\<lparr>cgs_implemented_domain := new_impl_domain\<rparr>)"

text \<open>\<^verbatim>\<open>CodeGenerationState.ast_builder\<close>: the builder is taken from the target of the
  kernel, \<^verbatim>\<open>self.kernel.target\<close>.\<close>

definition ast_builder :: "('b, 'pg, 'o) CodeGenerationState \<Rightarrow> 'b" where
  "ast_builder self =
     (if cgs_is_generating_device_code self
      then get_device_ast_builder (knl_target (cgs_kernel self))
      else get_host_ast_builder (knl_target (cgs_kernel self)))"

subsection \<open>The vectorization engine\<close>

text \<open>
  What an emission function returns: \<^verbatim>\<open>None\<close>, one result, or a list of results
  (\<^verbatim>\<open>unvectorize\<close> tests for a list first). An emission function takes the state and
  the world; it may raise, and it may have changed the world when it does.
\<close>

datatype 'r generated = GenNone | GenOne 'r | GenList "'r list"

type_synonym ('b, 'pg, 'o, 'r, 'w) emit_fn =
  "('b, 'pg, 'o) CodeGenerationState \<Rightarrow> 'w \<Rightarrow> (error + 'r generated) \<times> 'w"

text \<open>\<^verbatim>\<open>range(n)\<close> on Python integers: empty when \<open>n \<le> 0\<close>.\<close>

definition py_range :: "int \<Rightarrow> int list" where
  "py_range n = [0..n - 1]"

text \<open>
  The loop of \<^verbatim>\<open>unvectorize\<close> over the lane indices still to do, with the list
  \<^verbatim>\<open>result\<close> built so far. An exception raised by \<^verbatim>\<open>func\<close> leaves the loop.
\<close>

fun unvectorize_loop ::
  "('b, 'pg, 'o, 'r, 'w) emit_fn \<Rightarrow> ('b, 'pg, 'o) CodeGenerationState \<Rightarrow> string \<Rightarrow>
   int list \<Rightarrow> 'r list \<Rightarrow> 'w \<Rightarrow> (error + 'r list) \<times> 'w"
where
  "unvectorize_loop func novec_self iname [] result w = (Inr result, w)"
| "unvectorize_loop func novec_self iname (i # rest) result w =
     (let idx_aff = aff_constant i;
          new_codegen_state = fix_cgs novec_self iname idx_aff
      in case func new_codegen_state w of
           (Inl e, w') \<Rightarrow> (Inl e, w')
         | (Inr generated, w') \<Rightarrow>
             unvectorize_loop func novec_self iname rest
               (case generated of
                  GenList l \<Rightarrow> result @ l
                | GenNone \<Rightarrow> result
                | GenOne g \<Rightarrow> result @ [g])
               w')"

text \<open>
  \<^verbatim>\<open>CodeGenerationState.unvectorize\<close>. \<^verbatim>\<open>merge_codegen_results\<close> (of
  \<^verbatim>\<open>loopy.codegen.result\<close>, not among the sources) is a parameter.
\<close>

definition unvectorize ::
  "(('b, 'pg, 'o) CodeGenerationState \<Rightarrow> 'r list \<Rightarrow> 'r) \<Rightarrow> ('b, 'pg, 'o, 'r, 'w) emit_fn \<Rightarrow>
   ('b, 'pg, 'o) CodeGenerationState \<Rightarrow> 'w \<Rightarrow> (error + 'r) \<times> 'w"
where
  "unvectorize merge_codegen_results func self w =
     (case cgs_vectorization_info self of
        None \<Rightarrow> (Inl AssertionError, w)
      | Some vinf \<Rightarrow>
          (let novec_self = self\<lparr>cgs_vectorization_info := None\<rparr>
           in case unvectorize_loop func novec_self (vec_iname vinf)
                     (py_range (vec_length vinf)) [] w of
                (Inl e, w') \<Rightarrow> (Inl e, w')
              | (Inr result, w') \<Rightarrow> (Inr (merge_codegen_results self result), w')))"

text \<open>The text of the warning: \<^verbatim>\<open>"Vectorization of '%s' failed because '%s'" % (what, e)\<close>.\<close>

definition quoted :: "string \<Rightarrow> string" where
  "quoted s = [CHR 0x27] @ s @ [CHR 0x27]"

definition vectorize_failed_text :: "string \<Rightarrow> string \<Rightarrow> string" where
  "vectorize_failed_text what e =
     ''Vectorization of '' @ quoted what @ '' failed because '' @ quoted e"

text \<open>
  \<^verbatim>\<open>CodeGenerationState.try_vectorized\<close>. \<^verbatim>\<open>warn\<close> (of \<^verbatim>\<open>loopy.diagnostic\<close>, not among
  the sources) is a parameter that records the warning in the world. The result of
  \<^verbatim>\<open>func\<close> is returned as it is, whether one result or none; only
  \<^verbatim>\<open>UnvectorizableError\<close> raised by the call on \<^verbatim>\<open>self\<close> in a vectorizing state is
  handled.
\<close>

definition try_vectorized ::
  "(('b, 'pg, 'o) LoopKernel \<Rightarrow> string \<Rightarrow> string \<Rightarrow> 'w \<Rightarrow> 'w) \<Rightarrow>
   (('b, 'pg, 'o) CodeGenerationState \<Rightarrow> 'r list \<Rightarrow> 'r) \<Rightarrow> string \<Rightarrow>
   ('b, 'pg, 'o, 'r, 'w) emit_fn \<Rightarrow> ('b, 'pg, 'o) CodeGenerationState \<Rightarrow> 'w \<Rightarrow>
   (error + 'r generated) \<times> 'w"
where
  "try_vectorized warn merge_codegen_results what func self w =
     (case cgs_vectorization_info self of
        None \<Rightarrow> func self w
      | Some vinf \<Rightarrow>
          (case func self w of
             (Inl (UnvectorizableError e), w') \<Rightarrow>
               (case unvectorize merge_codegen_results func self
                       (warn (cgs_kernel self) ''vectorize_failed''
                          (vectorize_failed_text what e) w') of
                  (Inl e', w'') \<Rightarrow> (Inl e', w'')
                | (Inr r, w'') \<Rightarrow> (Inr (GenOne r), w''))
           | (r, w') \<Rightarrow> (r, w')))"

text \<open>
  The claims about \<^verbatim>\<open>unvectorize\<close> speak of the lane states and of calling the
  emission function on each in turn. \<open>lane_state\<close> is the state that the claim
  describes for lane \<open>i\<close>; \<open>call_in_order\<close> calls \<open>func\<close> once on each state of a list,
  from left to right, and returns what the calls returned, up to the first exception;
  \<open>fragments\<close> are the results that one call contributes.
\<close>

definition lane_state ::
  "('b, 'pg, 'o) CodeGenerationState \<Rightarrow> string \<Rightarrow> int \<Rightarrow> ('b, 'pg, 'o) CodeGenerationState"
where
  "lane_state self iname i = fix_cgs (self\<lparr>cgs_vectorization_info := None\<rparr>) iname (aff_constant i)"

fun call_in_order ::
  "('b, 'pg, 'o, 'r, 'w) emit_fn \<Rightarrow> ('b, 'pg, 'o) CodeGenerationState list \<Rightarrow> 'w \<Rightarrow>
   (error + 'r generated list) \<times> 'w"
where
  "call_in_order func [] w = (Inr [], w)"
| "call_in_order func (s # ss) w =
     (case func s w of
        (Inl e, w') \<Rightarrow> (Inl e, w')
      | (Inr g, w') \<Rightarrow>
          (case call_in_order func ss w' of
             (Inl e, w'') \<Rightarrow> (Inl e, w'')
           | (Inr gs, w'') \<Rightarrow> (Inr (g # gs), w'')))"

fun fragments :: "'r generated \<Rightarrow> 'r list" where
  "fragments GenNone = []"
| "fragments (GenOne g) = [g]"
| "fragments (GenList l) = l"

text \<open>An emission function that also writes each state it is called on into a log.\<close>

definition logged ::
  "('b, 'pg, 'o, 'r, 'w) emit_fn \<Rightarrow>
   ('b, 'pg, 'o, 'r, ('b, 'pg, 'o) CodeGenerationState list \<times> 'w) emit_fn"
where
  "logged func s lw =
     (case func s (snd lw) of (r, w') \<Rightarrow> (r, (fst lw @ [s], w')))"

subsection \<open>Results of code generation\<close>

text \<open>
  \<^verbatim>\<open>GeneratedProgram\<close> and \<^verbatim>\<open>CodeGenerationResult\<close> (of \<^verbatim>\<open>loopy.codegen.result\<close>, not
  among the sources), by the attributes that this module reads. The AST of a target is
  opaque (\<open>'ast\<close>).
\<close>

record 'ast GeneratedProgram =
  prg_name :: string
  prg_is_device_program :: bool
  prg_ast :: 'ast

record 'ast CodeGenerationResult =
  cgr_host_program :: "'ast GeneratedProgram option"
  cgr_device_programs :: "'ast GeneratedProgram list"
  cgr_implemented_domains :: "(string \<times> isl_set list) list"
  cgr_host_preambles :: "preamble list"
  cgr_device_preambles :: "preamble list"

record ('b, 'pg, 'o) PreambleInfo =
  pi_kernel :: "('b, 'pg, 'o) LoopKernel"
  pi_seen_dtypes :: "LoopyType set"
  pi_seen_functions :: "SeenFunction set"
  pi_seen_atomic_dtypes :: "LoopyType set"
  pi_codegen_state :: "('b, 'pg, 'o) CodeGenerationState"

text \<open>
  \<^verbatim>\<open>TranslationUnit\<close> (of \<^verbatim>\<open>loopy.translation_unit\<close>, not among the sources), by the
  attributes that this module reads.
\<close>

record ('b, 'pg, 'o) TranslationUnit =
  tu_callables_table :: "('b, 'pg, 'o) CallablesTable"
  tu_entrypoints :: "string set"
  tu_target :: "'b TargetBase"

text \<open>
  \<^verbatim>\<open>TranslationUnitCodeGenerationResult\<close>. The host programs are a dictionary in
  insertion order; \<^verbatim>\<open>generate_code_v2\<close> stores the \<^verbatim>\<open>host_program\<close> of a kernel result
  there, which is \<^verbatim>\<open>None\<close> when the kernel produced no host program.
\<close>

record 'ast TranslationUnitCodeGenerationResult =
  tcgr_host_programs :: "(string \<times> 'ast GeneratedProgram option) list"
  tcgr_device_programs :: "'ast GeneratedProgram list"
  tcgr_host_preambles :: "preamble list"
  tcgr_device_preambles :: "preamble list"

subsection \<open>The collaborators\<close>

text \<open>
  The functions of loopy that this module calls and that are not among the sources
  are parameters, collected in one record. Those with effects or exceptions take the
  world and return it with their outcome. The emission
  \<^verbatim>\<open>generate_host_or_device_program\<close> adds to the three collector sets of the state it
  is given (they are shared by every copy of the state); it returns the state with the
  sets as they are afterwards, beside its result. The two flags are
  \<^verbatim>\<open>loopy.CACHING_ENABLED\<close> and \<^verbatim>\<open>loopy.ABORT_ON_CACHE_MISS\<close>.
\<close>

record ('b, 'pg, 'o, 'ast, 'w) collaborators =
  CACHING_ENABLED :: bool
  ABORT_ON_CACHE_MISS :: bool
  tu_state :: "('b, 'pg, 'o) TranslationUnit \<Rightarrow> error + KernelState"
  preprocess_program ::
    "('b, 'pg, 'o) TranslationUnit \<Rightarrow> 'w \<Rightarrow> (error + ('b, 'pg, 'o) TranslationUnit) \<times> 'w"
  infer_unknown_types ::
    "('b, 'pg, 'o) TranslationUnit \<Rightarrow> bool \<Rightarrow> 'w \<Rightarrow> (error + ('b, 'pg, 'o) TranslationUnit) \<times> 'w"
  linearize ::
    "('b, 'pg, 'o) TranslationUnit \<Rightarrow> 'w \<Rightarrow> (error + ('b, 'pg, 'o) TranslationUnit) \<times> 'w"
  pre_codegen_checks :: "('b, 'pg, 'o) TranslationUnit \<Rightarrow> 'w \<Rightarrow> (error + unit) \<times> 'w"
  codegen_cache_manager_from_kernel :: "('b, 'pg, 'o) LoopKernel \<Rightarrow> 'o"
  generate_host_or_device_program ::
    "('b, 'pg, 'o) CodeGenerationState \<Rightarrow> nat \<Rightarrow> 'w \<Rightarrow>
     (error + 'ast CodeGenerationResult \<times> ('b, 'pg, 'o) CodeGenerationState) \<times> 'w"
  device_code :: "'ast CodeGenerationResult \<Rightarrow> string"
  check_implemented_domains ::
    "('b, 'pg, 'o) LoopKernel \<Rightarrow> (string \<times> isl_set list) list \<Rightarrow> string \<Rightarrow> error + bool"
  builder_preamble_generators :: "'b \<Rightarrow> 'pg list"
  call_preamble_generator ::
    "'pg \<Rightarrow> ('b, 'pg, 'o) PreambleInfo \<Rightarrow> 'w \<Rightarrow> (error + preamble list) \<times> 'w"
  generate_preambles ::
    "('b, 'pg, 'o) InKernelCallable \<Rightarrow> 'b TargetBase \<Rightarrow> 'w \<Rightarrow> (error + preamble list) \<times> 'w"
  Collection :: "'b \<Rightarrow> 'ast list \<Rightarrow> 'ast"
  fdecl :: "'ast \<Rightarrow> 'ast"

subsection \<open>The single-kernel driver\<close>

text \<open>
  The scan of the argument list: \<^verbatim>\<open>not_none(var.dtype)\<close> fails its assertion on the
  first variable without a type; \<^verbatim>\<open>allow_complex\<close> becomes true at a complex one.
\<close>

fun examine_arg_list :: "LoopyType option list \<Rightarrow> bool \<Rightarrow> error + bool" where
  "examine_arg_list [] allow_complex = Inr allow_complex"
| "examine_arg_list (None # vars) allow_complex = Inl AssertionError"
| "examine_arg_list (Some dtype # vars) allow_complex =
     examine_arg_list vars (if involves_complex dtype then True else allow_complex)"

text \<open>\<^verbatim>\<open>isl.BasicSet.from_params\<close>: the set with the same parameters and no set dimension.\<close>

definition from_params :: "isl_set \<Rightarrow> isl_set" where
  "from_params a = a\<lparr>set_dim_names := []\<rparr>"

text \<open>The loop that calls each preamble generator and extends \<^verbatim>\<open>preambles\<close>.\<close>

fun extend_preambles ::
  "('b, 'pg, 'o, 'ast, 'w) collaborators \<Rightarrow> 'pg list \<Rightarrow> ('b, 'pg, 'o) PreambleInfo \<Rightarrow>
   preamble list \<Rightarrow> 'w \<Rightarrow> (error + preamble list) \<times> 'w"
where
  "extend_preambles env [] preamble_info preambles w = (Inr preambles, w)"
| "extend_preambles env (prea_gen # gens) preamble_info preambles w =
     (case call_preamble_generator env prea_gen preamble_info w of
        (Inl e, w') \<Rightarrow> (Inl e, w')
      | (Inr new, w') \<Rightarrow> extend_preambles env gens preamble_info (preambles @ new) w')"

definition not_scheduled_text :: string where
  "not_scheduled_text = ''cannot generate code for a kernel that has not been scheduled''"

text \<open>The types that are present in a list of optional types.\<close>

definition present_dtypes :: "LoopyType option list \<Rightarrow> LoopyType set" where
  "present_dtypes vars = {t. Some t \<in> set vars}"

text \<open>
  The state that \<^verbatim>\<open>generate_code_for_a_single_kernel\<close> constructs for the kernel
  \<open>knl\<close>, given the flag from the scan of the arguments and the linearization.
\<close>

definition initial_codegen_state ::
  "('b, 'pg, 'o, 'ast, 'w) collaborators \<Rightarrow> ('b, 'pg, 'o) LoopKernel \<Rightarrow>
   ('b, 'pg, 'o) CallablesTable \<Rightarrow> 'b TargetBase \<Rightarrow> bool \<Rightarrow> bool \<Rightarrow> string list \<Rightarrow>
   ('b, 'pg, 'o) CodeGenerationState"
where
  "initial_codegen_state env knl callables_table target is_entrypoint allow_complex
       linearization =
     \<lparr>cgs_kernel = knl,
      cgs_target = target,
      cgs_implemented_domain = from_params (knl_assumptions knl),
      cgs_implemented_predicates = {},
      cgs_seen_dtypes = {},
      cgs_seen_functions = {},
      cgs_seen_atomic_dtypes = {},
      cgs_var_subst_map = Map.empty,
      cgs_allow_complex = allow_complex,
      cgs_callables_table = callables_table,
      cgs_is_entrypoint = is_entrypoint,
      cgs_var_name_generator = get_var_name_generator knl,
      cgs_is_generating_device_code = False,
      cgs_gen_program_name =
        tgt_host_program_name_prefix target @ knl_name knl
        @ tgt_host_program_name_suffix (knl_target knl),
      cgs_schedule_index_end = length linearization,
      cgs_codegen_cache_manager = codegen_cache_manager_from_kernel env knl,
      cgs_vectorization_info = None\<rparr>"

text \<open>
  The handling of the preambles after the emission: the types of the arguments, of the
  temporaries and of the index are added to the seen types, and every preamble
  generator of the kernel and of the device builder is called. Every \<^verbatim>\<open>dtype\<close> is
  present here, the scan of the arguments having passed.
\<close>

definition handle_preambles ::
  "('b, 'pg, 'o, 'ast, 'w) collaborators \<Rightarrow> ('b, 'pg, 'o) LoopKernel \<Rightarrow> 'b TargetBase \<Rightarrow>
   'ast CodeGenerationResult \<Rightarrow> ('b, 'pg, 'o) CodeGenerationState \<Rightarrow> 'w \<Rightarrow>
   (error + 'ast CodeGenerationResult) \<times> 'w"
where
  "handle_preambles env knl target codegen_result emitted_state w =
     (let seen_dtypes =
            cgs_seen_dtypes emitted_state
            \<union> present_dtypes (knl_args knl)
            \<union> present_dtypes (map snd (knl_temporary_variables knl))
            \<union> (if knl_all_inames knl \<noteq> [] then {knl_index_dtype knl} else {});
          preambles = knl_preambles knl @ cgr_device_preambles codegen_result;
          preamble_info =
            \<lparr>pi_kernel = knl,
             pi_seen_dtypes = seen_dtypes,
             pi_seen_functions = cgs_seen_functions emitted_state,
             pi_seen_atomic_dtypes = cgs_seen_atomic_dtypes emitted_state,
             pi_codegen_state = emitted_state\<lparr>cgs_seen_dtypes := seen_dtypes\<rparr>\<rparr>
      in case extend_preambles env
                (knl_preamble_generators knl
                 @ builder_preamble_generators env (get_device_ast_builder target))
                preamble_info preambles w of
           (Inl e, w') \<Rightarrow> (Inl e, w')
         | (Inr preambles', w') \<Rightarrow>
             (Inr (codegen_result\<lparr>cgr_device_preambles := preambles'\<rparr>), w'))"

text \<open>
  \<^verbatim>\<open>generate_code_for_a_single_kernel\<close>, the kernel being \<open>knl\<close>. The process
  logger is left out.
\<close>

definition generate_code_for_a_single_kernel ::
  "('b, 'pg, 'o, 'ast, 'w) collaborators \<Rightarrow> ('b, 'pg, 'o) LoopKernel \<Rightarrow>
   ('b, 'pg, 'o) CallablesTable \<Rightarrow> 'b TargetBase \<Rightarrow> bool \<Rightarrow> 'w \<Rightarrow>
   (error + 'ast CodeGenerationResult) \<times> 'w"
where
  "generate_code_for_a_single_kernel env knl callables_table target is_entrypoint w =
     (if knl_state knl \<noteq> LINEARIZED then (Inl (LoopyError not_scheduled_text), w)
      else
        case examine_arg_list
               (knl_args knl @ map snd (knl_temporary_variables knl)) False of
          Inl e \<Rightarrow> (Inl e, w)
        | Inr allow_complex \<Rightarrow>
           (case knl_linearization knl of
              None \<Rightarrow> (Inl AssertionError, w)
            | Some linearization \<Rightarrow>
               (case generate_host_or_device_program env
                       (initial_codegen_state env knl callables_table target is_entrypoint
                          allow_complex linearization) 0 w of
                  (Inl e, w') \<Rightarrow> (Inl e, w')
                | (Inr (codegen_result, emitted_state), w') \<Rightarrow>
                   (case check_implemented_domains env knl
                           (cgr_implemented_domains codegen_result)
                           (device_code env codegen_result) of
                      Inl e \<Rightarrow> (Inl e, w')
                    | Inr False \<Rightarrow> (Inl AssertionError, w')
                    | Inr True \<Rightarrow>
                        handle_preambles env knl target codegen_result emitted_state w'))))"

subsection \<open>Entrypoints that are also callees\<close>

text \<open>
  Modelled from the spec: \<^verbatim>\<open>get_reachable_resolved_callable_ids\<close>,
  \<^verbatim>\<open>make_callable_name_generator\<close> and \<^verbatim>\<open>rename_resolved_functions_in_a_single_kernel\<close>
  (of \<^verbatim>\<open>loopy.translation_unit\<close>) are not among the sources. The spec: compute the set
  of resolved callable ids reachable from the declared entrypoints; generate a fresh
  unique name; rewrite every kernel body's internal call-site references using the
  rename table.

  \<open>callees_of\<close> are the ids in the table that the kernel under a name calls. The
  reachable ids are those called from an entrypoint, directly or through other
  callables; one round per entry of the table reaches them all.
\<close>

definition callees_of :: "('b, 'pg, 'o) CallablesTable \<Rightarrow> string \<Rightarrow> string list" where
  "callees_of table name =
     (case map_of table name of
        Some (CallableKernel k) \<Rightarrow> filter (\<lambda>c. c \<in> set (map fst table)) (knl_callees k)
      | _ \<Rightarrow> [])"

fun reach_rounds :: "nat \<Rightarrow> ('b, 'pg, 'o) CallablesTable \<Rightarrow> string list \<Rightarrow> string list" where
  "reach_rounds 0 table ids = ids"
| "reach_rounds (Suc n) table ids =
     reach_rounds n table (remdups (ids @ concat (map (callees_of table) ids)))"

definition get_reachable_resolved_callable_ids ::
  "('b, 'pg, 'o) CallablesTable \<Rightarrow> string set \<Rightarrow> string list"
where
  "get_reachable_resolved_callable_ids table entrypoints =
     reach_rounds (length table) table
       (remdups (concat (map (callees_of table)
          (filter (\<lambda>name. name \<in> entrypoints) (map fst table)))))"

text \<open>
  The name generator is the list of the names in use, at first the ids of the table.
  A call returns the first of \<open>based_on\<close>, \<open>based_on_0\<close>, \<open>based_on_1\<close>, \<dots> that is
  not in use, and puts it in use. Among one candidate more than there are names in use,
  one is free.
\<close>

definition digit_char :: "nat \<Rightarrow> char" where
  "digit_char d = ''0123456789'' ! d"

function string_of_nat :: "nat \<Rightarrow> string" where
  "string_of_nat n =
     (if n < 10 then [digit_char n] else string_of_nat (n div 10) @ [digit_char (n mod 10)])"
  by pat_completeness auto
termination
  by (relation "measure (\<lambda>n. n)") auto

declare string_of_nat.simps [simp del]

definition make_callable_name_generator :: "('b, 'pg, 'o) CallablesTable \<Rightarrow> string list" where
  "make_callable_name_generator table = map fst table"

definition vng :: "string list \<Rightarrow> string \<Rightarrow> string \<times> string list" where
  "vng in_use based_on =
     (case find (\<lambda>c. c \<notin> set in_use)
             (based_on # map (\<lambda>n. based_on @ ''_'' @ string_of_nat n) [0..<Suc (length in_use)]) of
        Some name \<Rightarrow> (name, name # in_use)
      | None \<Rightarrow> (based_on, in_use))"

text \<open>A rename table is a dictionary from the old name to the new one.\<close>

definition renamed :: "(string \<times> string) list \<Rightarrow> string \<Rightarrow> string" where
  "renamed todo_renames name =
     (case map_of todo_renames name of Some new_name \<Rightarrow> new_name | None \<Rightarrow> name)"

definition rename_resolved_functions_in_a_single_kernel ::
  "('b, 'pg, 'o) LoopKernel \<Rightarrow> (string \<times> string) list \<Rightarrow> ('b, 'pg, 'o) LoopKernel"
where
  "rename_resolved_functions_in_a_single_kernel knl todo_renames =
     knl\<lparr>knl_callees := map (renamed todo_renames) (knl_callees knl)\<rparr>"

text \<open>
  \<^verbatim>\<open>diverge_callee_entrypoints\<close>. The first loop asks the generator for a name for each
  id that is reachable and an entrypoint. The second loop goes through the table and
  stores every callable once, under its new name if it has one, otherwise under its
  own.
\<close>

fun collect_renames ::
  "string list \<Rightarrow> string list \<Rightarrow> (string \<times> string) list \<Rightarrow> (string \<times> string) list"
where
  "collect_renames [] in_use todo_renames = todo_renames"
| "collect_renames (clbl_id # ids) in_use todo_renames =
     (case vng in_use clbl_id of
        (new_name, in_use') \<Rightarrow>
          collect_renames ids in_use' (AList.update clbl_id new_name todo_renames))"

fun rename_callables ::
  "(string \<times> string) list \<Rightarrow> ('b, 'pg, 'o) CallablesTable \<Rightarrow> ('b, 'pg, 'o) CallablesTable \<Rightarrow>
   ('b, 'pg, 'o) CallablesTable"
where
  "rename_callables todo_renames [] new_callables = new_callables"
| "rename_callables todo_renames ((name, clbl) # items) new_callables =
     (let name' = renamed todo_renames name;
          clbl' =
            (case clbl of
               CallableKernel subkernel \<Rightarrow>
                 CallableKernel
                   ((rename_resolved_functions_in_a_single_kernel subkernel todo_renames)
                      \<lparr>knl_name := name'\<rparr>)
             | ScalarCallable n \<Rightarrow> clbl)
      in rename_callables todo_renames items (AList.update name' clbl' new_callables))"

definition diverge_callee_entrypoints ::
  "('b, 'pg, 'o) TranslationUnit \<Rightarrow> ('b, 'pg, 'o) TranslationUnit"
where
  "diverge_callee_entrypoints t_unit =
     (let callable_ids =
            get_reachable_resolved_callable_ids (tu_callables_table t_unit)
              (tu_entrypoints t_unit);
          todo_renames =
            collect_renames (filter (\<lambda>clbl_id. clbl_id \<in> tu_entrypoints t_unit) callable_ids)
              (make_callable_name_generator (tu_callables_table t_unit)) []
      in t_unit\<lparr>tu_callables_table :=
                  rename_callables todo_renames (tu_callables_table t_unit) []\<rparr>)"

subsection \<open>Rendering the result of a translation unit\<close>

text \<open>\<^verbatim>\<open>sep.join(strings)\<close>.\<close>

fun str_join :: "string \<Rightarrow> string list \<Rightarrow> string" where
  "str_join sep [] = []"
| "str_join sep [x] = x"
| "str_join sep (x # y # ys) = x @ sep @ str_join sep (y # ys)"

definition newline :: string where
  "newline = [CHR 0x0A]"

text \<open>
  \<^verbatim>\<open>str(hp.ast) for hp in self.host_programs.values()\<close>: reading \<^verbatim>\<open>.ast\<close> of a host
  program that is \<^verbatim>\<open>None\<close> raises \<^verbatim>\<open>AttributeError\<close>.
\<close>

fun host_program_strs ::
  "('ast \<Rightarrow> string) \<Rightarrow> (string \<times> 'ast GeneratedProgram option) list \<Rightarrow> error + string list"
where
  "host_program_strs str_ast [] = Inr []"
| "host_program_strs str_ast ((name, None) # hps) = Inl AttributeError"
| "host_program_strs str_ast ((name, Some hp) # hps) =
     (case host_program_strs str_ast hps of
        Inl e \<Rightarrow> Inl e
      | Inr strs \<Rightarrow> Inr (str_ast (prg_ast hp) # strs))"

text \<open>
  Modelled from the spec: \<^verbatim>\<open>process_preambles\<close> (of \<^verbatim>\<open>loopy.codegen.result\<close>) is not
  among the sources. The spec: preambles are pairs of a priority and a text; rendering
  de-duplicates by text and orders by priority, then by the order of discovery.

  The preambles are sorted by priority, those of one priority staying in the order in
  which they came; then every preamble whose text has been seen already is dropped; the
  texts of the others are the codes.
\<close>

fun drop_seen_texts :: "string list \<Rightarrow> preamble list \<Rightarrow> preamble list" where
  "drop_seen_texts seen [] = []"
| "drop_seen_texts seen ((priority, code) # preambles) =
     (if code \<in> set seen then drop_seen_texts seen preambles
      else (priority, code) # drop_seen_texts (code # seen) preambles)"

definition process_preambles :: "preamble list \<Rightarrow> string list" where
  "process_preambles preambles = map snd (drop_seen_texts [] (sort_key fst preambles))"

text \<open>
  \<^verbatim>\<open>TranslationUnitCodeGenerationResult.all_code\<close>. The rendering \<^verbatim>\<open>str\<close> of an AST is
  a parameter.
\<close>

definition all_code ::
  "('ast \<Rightarrow> string) \<Rightarrow> 'ast TranslationUnitCodeGenerationResult \<Rightarrow> error + string"
where
  "all_code str_ast self =
     (let preamble_codes =
            process_preambles (tcgr_host_preambles self @ tcgr_device_preambles self)
      in case host_program_strs str_ast (tcgr_host_programs self) of
           Inl e \<Rightarrow> Inl e
         | Inr host_strs \<Rightarrow>
             Inr (concat preamble_codes
                  @ newline
                  @ str_join (newline @ newline)
                      (map (\<lambda>dp. str_ast (prg_ast dp)) (tcgr_device_programs self))
                  @ newline @ newline
                  @ str_join (newline @ newline) host_strs))"

subsection \<open>The driver of a translation unit\<close>

text \<open>
  \<^verbatim>\<open>sorted(key for key, val in t_unit.callables_table.items()
  if isinstance(val, CallableKernel))\<close>: strings are compared as Python does, character by
  character.
\<close>

definition kernel_func_ids :: "('b, 'pg, 'o) CallablesTable \<Rightarrow> string list" where
  "kernel_func_ids table = sort (map fst (filter (\<lambda>(key, val). is_CallableKernel val) table))"

text \<open>
  \<^verbatim>\<open>t_unit[func_id]\<close> (\<^verbatim>\<open>TranslationUnit.__getitem__\<close>, not among the sources): for the
  id of a kernel, its subkernel; \<^verbatim>\<open>KeyError\<close> for an id that the table does not have,
  \<^verbatim>\<open>ValueError\<close> for the id of a callable that is no kernel. The driver asks for the
  ids of kernels only.
\<close>

definition tu_getitem ::
  "('b, 'pg, 'o) TranslationUnit \<Rightarrow> string \<Rightarrow> error + ('b, 'pg, 'o) LoopKernel"
where
  "tu_getitem t_unit name =
     (case map_of (tu_callables_table t_unit) name of
        Some (CallableKernel subkernel) \<Rightarrow> Inr subkernel
      | Some (ScalarCallable n) \<Rightarrow> Inl ValueError
      | None \<Rightarrow> Inl KeyError)"

text \<open>
  The loop that collects the host and device programs, over the ids still to do. The
  four lists built so far are \<^verbatim>\<open>host_programs\<close>, \<^verbatim>\<open>device_programs\<close>,
  \<^verbatim>\<open>device_preambles\<close> and \<^verbatim>\<open>callee_fdecls\<close>. The single-kernel driver is the
  parameter \<open>driver\<close>; \<^verbatim>\<open>generate_code_v2\<close> passes
  \<open>generate_code_for_a_single_kernel\<close>. For a callable that is no entrypoint, a result
  with other than one device program fails the assertion.
\<close>

type_synonym 'ast collected =
  "(string \<times> 'ast GeneratedProgram option) list \<times> 'ast GeneratedProgram list
   \<times> preamble list \<times> 'ast list"

fun collect_programs ::
  "('ast \<Rightarrow> 'ast) \<Rightarrow>
   (('b, 'pg, 'o) LoopKernel \<Rightarrow> ('b, 'pg, 'o) CallablesTable \<Rightarrow> 'b TargetBase \<Rightarrow> bool \<Rightarrow> 'w \<Rightarrow>
    (error + 'ast CodeGenerationResult) \<times> 'w) \<Rightarrow>
   ('b, 'pg, 'o) TranslationUnit \<Rightarrow> string list \<Rightarrow> 'ast collected \<Rightarrow> 'w \<Rightarrow>
   (error + 'ast collected) \<times> 'w"
where
  "collect_programs fdecl_of driver t_unit [] acc w = (Inr acc, w)"
| "collect_programs fdecl_of driver t_unit (func_id # ids)
       (host_programs, device_programs, device_preambles, callee_fdecls) w =
     (case tu_getitem t_unit func_id of
        Inl e \<Rightarrow> (Inl e, w)
      | Inr knl \<Rightarrow>
         (case driver knl (tu_callables_table t_unit) (tu_target t_unit)
                 (func_id \<in> tu_entrypoints t_unit) w of
            (Inl e, w') \<Rightarrow> (Inl e, w')
          | (Inr cgr, w') \<Rightarrow>
             (if func_id \<in> tu_entrypoints t_unit
              then collect_programs fdecl_of driver t_unit ids
                     (AList.update func_id (cgr_host_program cgr) host_programs,
                      device_programs @ cgr_device_programs cgr,
                      device_preambles @ cgr_device_preambles cgr,
                      callee_fdecls) w'
              else (case cgr_device_programs cgr of
                      [dp] \<Rightarrow>
                        collect_programs fdecl_of driver t_unit ids
                          (host_programs,
                           device_programs @ cgr_device_programs cgr,
                           device_preambles @ cgr_device_preambles cgr,
                           callee_fdecls @ [fdecl_of (prg_ast dp)]) w'
                    | _ \<Rightarrow> (Inl AssertionError, w')))))"

text \<open>
  Calling the single-kernel driver once for each id of a list, from left to right, up
  to the first exception: what the per-kernel loop is claimed to do with the sorted
  ids. The results of the calls are returned in that order.
\<close>

fun drive_in_order ::
  "(('b, 'pg, 'o) LoopKernel \<Rightarrow> ('b, 'pg, 'o) CallablesTable \<Rightarrow> 'b TargetBase \<Rightarrow> bool \<Rightarrow> 'w \<Rightarrow>
    (error + 'ast CodeGenerationResult) \<times> 'w) \<Rightarrow>
   ('b, 'pg, 'o) TranslationUnit \<Rightarrow> string list \<Rightarrow> 'w \<Rightarrow>
   (error + 'ast CodeGenerationResult list) \<times> 'w"
where
  "drive_in_order driver t_unit [] w = (Inr [], w)"
| "drive_in_order driver t_unit (func_id # ids) w =
     (case tu_getitem t_unit func_id of
        Inl e \<Rightarrow> (Inl e, w)
      | Inr knl \<Rightarrow>
         (case driver knl (tu_callables_table t_unit) (tu_target t_unit)
                 (func_id \<in> tu_entrypoints t_unit) w of
            (Inl e, w') \<Rightarrow> (Inl e, w')
          | (Inr cgr, w') \<Rightarrow>
             (case drive_in_order driver t_unit ids w' of
                (Inl e, w'') \<Rightarrow> (Inl e, w'')
              | (Inr cgrs, w'') \<Rightarrow> (Inr (cgr # cgrs), w''))))"

text \<open>The results that the callables that are no entrypoints gave.\<close>

definition callee_results ::
  "('b, 'pg, 'o) TranslationUnit \<Rightarrow> string list \<Rightarrow> 'ast CodeGenerationResult list \<Rightarrow>
   'ast CodeGenerationResult list"
where
  "callee_results t_unit ids cgrs =
     map snd (filter (\<lambda>(func_id, cgr). func_id \<notin> tu_entrypoints t_unit) (zip ids cgrs))"

text \<open>The loop that collects the preambles of every callable of the table.\<close>

fun collect_preambles ::
  "('b, 'pg, 'o, 'ast, 'w) collaborators \<Rightarrow> 'b TargetBase \<Rightarrow> ('b, 'pg, 'o) CallablesTable \<Rightarrow>
   preamble list \<Rightarrow> 'w \<Rightarrow> (error + preamble list) \<times> 'w"
where
  "collect_preambles env target [] device_preambles w = (Inr device_preambles, w)"
| "collect_preambles env target ((name, clbl) # items) device_preambles w =
     (case generate_preambles env clbl target w of
        (Inl e, w') \<Rightarrow> (Inl e, w')
      | (Inr new, w') \<Rightarrow> collect_preambles env target items (device_preambles @ new) w')"

text \<open>
  Adding the callee declarations to the device programs: the first device program gets
  the collection of the declarations and its own AST; \<^verbatim>\<open>device_programs[0]\<close> raises
  \<^verbatim>\<open>IndexError\<close> on the empty list.
\<close>

definition add_callee_fdecls ::
  "('b, 'pg, 'o, 'ast, 'w) collaborators \<Rightarrow> ('b, 'pg, 'o) TranslationUnit \<Rightarrow> 'ast list \<Rightarrow>
   'ast GeneratedProgram list \<Rightarrow> error + 'ast GeneratedProgram list"
where
  "add_callee_fdecls env t_unit callee_fdecls device_programs =
     (case device_programs of
        [] \<Rightarrow> Inl IndexError
      | first # others \<Rightarrow>
          Inr (first\<lparr>prg_ast :=
                       Collection env (get_device_ast_builder (tu_target t_unit))
                         (callee_fdecls @ [prg_ast first])\<rparr>
               # others))"

text \<open>A pipeline stage that runs only below a given kernel state.\<close>

definition stage_below ::
  "('b, 'pg, 'o, 'ast, 'w) collaborators \<Rightarrow> KernelState \<Rightarrow>
   (('b, 'pg, 'o) TranslationUnit \<Rightarrow> 'w \<Rightarrow> (error + ('b, 'pg, 'o) TranslationUnit) \<times> 'w) \<Rightarrow>
   ('b, 'pg, 'o) TranslationUnit \<Rightarrow> 'w \<Rightarrow> (error + ('b, 'pg, 'o) TranslationUnit) \<times> 'w"
where
  "stage_below env bound stage t_unit w =
     (case tu_state env t_unit of
        Inl e \<Rightarrow> (Inl e, w)
      | Inr st \<Rightarrow> if state_rank st < state_rank bound then stage t_unit w else (Inr t_unit, w))"

text \<open>
  The stages of \<^verbatim>\<open>generate_code_v2\<close> that other modules provide: preprocessing,
  type inference, linearization. The parameter of \<^verbatim>\<open>generate_code_v2\<close> is declared a
  \<^verbatim>\<open>TranslationUnit\<close>, so the test for a bare kernel is false.
\<close>

definition run_upstream_stages ::
  "('b, 'pg, 'o, 'ast, 'w) collaborators \<Rightarrow> ('b, 'pg, 'o) TranslationUnit \<Rightarrow> 'w \<Rightarrow>
   (error + ('b, 'pg, 'o) TranslationUnit) \<times> 'w"
where
  "run_upstream_stages env t_unit w =
     (case stage_below env PREPROCESSED (preprocess_program env) t_unit w of
        (Inl e, w1) \<Rightarrow> (Inl e, w1)
      | (Inr t1, w1) \<Rightarrow>
         (case infer_unknown_types env t1 True w1 of
            (Inl e, w2) \<Rightarrow> (Inl e, w2)
          | (Inr t2, w2) \<Rightarrow> stage_below env LINEARIZED (linearize env) t2 w2))"

text \<open>The per-kernel loop, the preambles of the callables and the assembly of the result.\<close>

definition assemble_t_unit ::
  "('b, 'pg, 'o, 'ast, 'w) collaborators \<Rightarrow> ('b, 'pg, 'o) TranslationUnit \<Rightarrow> 'w \<Rightarrow>
   (error + 'ast TranslationUnitCodeGenerationResult) \<times> 'w"
where
  "assemble_t_unit env t_unit w =
     (case collect_programs (fdecl env) (generate_code_for_a_single_kernel env) t_unit
             (kernel_func_ids (tu_callables_table t_unit)) ([], [], [], []) w of
        (Inl e, w1) \<Rightarrow> (Inl e, w1)
      | (Inr (host_programs, device_programs, device_preambles, callee_fdecls), w1) \<Rightarrow>
         (case collect_preambles env (tu_target t_unit) (tu_callables_table t_unit)
                 device_preambles w1 of
            (Inl e, w2) \<Rightarrow> (Inl e, w2)
          | (Inr device_preambles', w2) \<Rightarrow>
             (case add_callee_fdecls env t_unit callee_fdecls device_programs of
                Inl e \<Rightarrow> (Inl e, w2)
              | Inr device_programs' \<Rightarrow>
                  (Inr \<lparr>tcgr_host_programs = host_programs,
                        tcgr_device_programs = device_programs',
                        tcgr_host_preambles = [],
                        tcgr_device_preambles = device_preambles'\<rparr>,
                   w2))))"

text \<open>
  \<^verbatim>\<open>generate_code_v2\<close> after the cache retrieval: the upstream stages, the divergence
  of callee entrypoints, the checks before code generation, the assembly.
\<close>

definition generate_uncached ::
  "('b, 'pg, 'o, 'ast, 'w) collaborators \<Rightarrow> ('b, 'pg, 'o) TranslationUnit \<Rightarrow> 'w \<Rightarrow>
   (error + 'ast TranslationUnitCodeGenerationResult) \<times> 'w"
where
  "generate_uncached env t_unit w =
     (case run_upstream_stages env t_unit w of
        (Inl e, w1) \<Rightarrow> (Inl e, w1)
      | (Inr t_unit1, w1) \<Rightarrow>
         (let t_unit2 = diverge_callee_entrypoints t_unit1
          in case pre_codegen_checks env t_unit2 w1 of
               (Inl e, w2) \<Rightarrow> (Inl e, w2)
             | (Inr u, w2) \<Rightarrow> assemble_t_unit env t_unit2 w2))"

text \<open>
  The code generation cache, a \<^verbatim>\<open>WriteOncePersistentDict\<close> of pytools keyed by the
  translation unit: a dictionary with \<^verbatim>\<open>store_if_not_present\<close>, which leaves an entry
  that the key has already as it is.
\<close>

type_synonym ('b, 'pg, 'o, 'ast) code_gen_cache =
  "('b, 'pg, 'o) TranslationUnit \<rightharpoonup> 'ast TranslationUnitCodeGenerationResult"

definition store_if_not_present :: "('k \<rightharpoonup> 'v) \<Rightarrow> 'k \<Rightarrow> 'v \<Rightarrow> ('k \<rightharpoonup> 'v)" where
  "store_if_not_present c key val = (case c key of None \<Rightarrow> c(key \<mapsto> val) | Some old \<Rightarrow> c)"

text \<open>
  \<^verbatim>\<open>generate_code_v2\<close>. The debug messages are left out. The cache is a module-level
  object that persists outside the call, so it is part of what the stages run on: the
  world of the collaborators is the cache together with the rest of the world, and
  whatever runs between the lookup and the store may have stored an entry meanwhile.
  The store is made into the cache as it is after the stages.
\<close>

definition generate_code_v2 ::
  "('b, 'pg, 'o, 'ast, ('b, 'pg, 'o, 'ast) code_gen_cache \<times> 'w) collaborators \<Rightarrow>
   ('b, 'pg, 'o) TranslationUnit \<Rightarrow> ('b, 'pg, 'o, 'ast) code_gen_cache \<times> 'w \<Rightarrow>
   (error + 'ast TranslationUnitCodeGenerationResult) \<times> ('b, 'pg, 'o, 'ast) code_gen_cache \<times> 'w"
where
  "generate_code_v2 env t_unit cw =
     (let input_t_unit = t_unit
      in case (if CACHING_ENABLED env then fst cw input_t_unit else None) of
           Some result \<Rightarrow> (Inr result, cw)
         | None \<Rightarrow>
             if CACHING_ENABLED env \<and> ABORT_ON_CACHE_MISS env
             then (Inl KeyError, cw)
             else
               (case generate_uncached env t_unit cw of
                  (Inl e, cw') \<Rightarrow> (Inl e, cw')
                | (Inr cgr, cw') \<Rightarrow>
                    (Inr cgr,
                     (if CACHING_ENABLED env
                      then store_if_not_present (fst cw') input_t_unit cgr
                      else fst cw',
                      snd cw'))))"

subsection \<open>Concrete inputs\<close>

text \<open>
  A state whose field \<^verbatim>\<open>target\<close> and whose kernel's target are two different targets,
  over a domain with the parameter \<open>n\<close> and the set dimension \<open>i\<close>; the same state
  inside a vectorized loop over \<open>i\<close> of length 4.
\<close>

definition example_target :: "string TargetBase" where
  "example_target =
     \<lparr>tgt_host_program_name_prefix = ''_lpy_host_'', tgt_host_program_name_suffix = '''',
      get_host_ast_builder = ''state_host_builder'',
      get_device_ast_builder = ''state_device_builder''\<rparr>"

definition example_kernel_target :: "string TargetBase" where
  "example_kernel_target =
     \<lparr>tgt_host_program_name_prefix = ''_lpy_host_'', tgt_host_program_name_suffix = '''',
      get_host_ast_builder = ''kernel_host_builder'',
      get_device_ast_builder = ''kernel_device_builder''\<rparr>"

definition example_domain :: isl_set where
  "example_domain =
     \<lparr>param_names = [''n''], set_dim_names = [Some ''i''],
      constraints = [Inequality \<lparr>aff_coeffs = [(''i'', 1)], aff_const = 0\<rparr>]\<rparr>"

definition example_kernel :: "(string, string, unit) LoopKernel" where
  "example_kernel =
     \<lparr>knl_name = ''knl'', knl_state = LINEARIZED, knl_target = example_kernel_target,
      knl_args = [Some \<lparr>dtype_name = ''float32'', involves_complex = False\<rparr>],
      knl_temporary_variables = [],
      knl_assumptions = \<lparr>param_names = [''n''], set_dim_names = [], constraints = []\<rparr>,
      knl_linearization = Some [''insn''], knl_preambles = [], knl_preamble_generators = [],
      knl_index_dtype = \<lparr>dtype_name = ''int32'', involves_complex = False\<rparr>,
      knl_all_inames = [''i''], knl_callees = [], get_var_name_generator = ()\<rparr>"

definition example_state :: "(string, string, unit) CodeGenerationState" where
  "example_state =
     \<lparr>cgs_kernel = example_kernel, cgs_target = example_target,
      cgs_implemented_domain = example_domain, cgs_implemented_predicates = {},
      cgs_seen_dtypes = {}, cgs_seen_functions = {}, cgs_seen_atomic_dtypes = {},
      cgs_var_subst_map = Map.empty, cgs_allow_complex = False, cgs_callables_table = [],
      cgs_is_entrypoint = True, cgs_var_name_generator = (),
      cgs_is_generating_device_code = True, cgs_gen_program_name = ''knl'',
      cgs_schedule_index_end = 1, cgs_codegen_cache_manager = (),
      cgs_vectorization_info = None\<rparr>"

definition example_vinf :: VectorizationInfo where
  "example_vinf = \<lparr>vec_iname = ''i'', vec_length = 4\<rparr>"

definition example_vec_state :: "(string, string, unit) CodeGenerationState" where
  "example_vec_state = example_state\<lparr>cgs_vectorization_info := Some example_vinf\<rparr>"

text \<open>
  Emission functions whose results are lists of lane numbers: one that can never be
  vectorized, and one that fails in a vectorizing state and otherwise emits the number
  that \<open>i\<close> is fixed to. The world is the list of the warnings; results are merged by
  concatenation.
\<close>

definition emit_unvectorizable ::
  "(string, string, unit, int list, string list) emit_fn"
where
  "emit_unvectorizable s w = (Inl (UnvectorizableError ''no vector form''), w)"

definition emit_scalar_only ::
  "(string, string, unit, int list, string list) emit_fn"
where
  "emit_scalar_only s w =
     (case cgs_vectorization_info s of
        Some vinf \<Rightarrow> (Inl (UnvectorizableError ''no vector form''), w)
      | None \<Rightarrow>
          (case cgs_var_subst_map s ''i'' of
             Some (Constant c) \<Rightarrow> (Inr (GenOne [c]), w)
           | _ \<Rightarrow> (Inr GenNone, w)))"

definition example_warn ::
  "(string, string, unit) LoopKernel \<Rightarrow> string \<Rightarrow> string \<Rightarrow> string list \<Rightarrow> string list"
where
  "example_warn knl warning_id text w = w @ [warning_id]"

definition example_merge ::
  "(string, string, unit) CodeGenerationState \<Rightarrow> int list list \<Rightarrow> int list"
where
  "example_merge s results = concat results"

text \<open>
  A translation unit with the kernels \<open>main\<close> and \<open>g\<close>, both entrypoints, where
  \<open>main\<close> calls \<open>g\<close>.
\<close>

definition kernel_named :: "string \<Rightarrow> string list \<Rightarrow> (string, string, unit) LoopKernel" where
  "kernel_named name callees = example_kernel\<lparr>knl_name := name, knl_callees := callees\<rparr>"

definition callee_entrypoint_unit :: "(string, string, unit) TranslationUnit" where
  "callee_entrypoint_unit =
     \<lparr>tu_callables_table =
        [(''main'', CallableKernel (kernel_named ''main'' [''g''])),
         (''g'', CallableKernel (kernel_named ''g'' []))],
      tu_entrypoints = {''main'', ''g''},
      tu_target = example_target\<rparr>"

text \<open>
  Collaborators for the examples. ASTs are texts. Every stage leaves a note of its name
  in the world, by the function \<open>note\<close>; the checks before code generation are a
  parameter too. The emission returns one device program for the kernel and, for an
  entrypoint, a host program; the unit state is that of its kernels.
\<close>

definition example_emission ::
  "(string \<Rightarrow> 'w \<Rightarrow> 'w) \<Rightarrow> (string, string, unit) CodeGenerationState \<Rightarrow> nat \<Rightarrow> 'w \<Rightarrow>
   (error + string CodeGenerationResult \<times> (string, string, unit) CodeGenerationState) \<times> 'w"
where
  "example_emission note s schedule_index w =
     (Inr (\<lparr>cgr_host_program =
               (if cgs_is_entrypoint s
                then Some \<lparr>prg_name = cgs_gen_program_name s, prg_is_device_program = False,
                           prg_ast = ''host '' @ knl_name (cgs_kernel s)\<rparr>
                else None),
             cgr_device_programs =
               [\<lparr>prg_name = knl_name (cgs_kernel s), prg_is_device_program = True,
                 prg_ast = ''device '' @ knl_name (cgs_kernel s)\<rparr>],
             cgr_implemented_domains = [],
             cgr_host_preambles = [],
             cgr_device_preambles = []\<rparr>, s),
      note (''emit '' @ knl_name (cgs_kernel s)) w)"

definition example_tu_state :: "(string, string, unit) TranslationUnit \<Rightarrow> error + KernelState" where
  "example_tu_state t_unit =
     (if list_all (\<lambda>(name, clbl). case clbl of CallableKernel k \<Rightarrow> knl_state k = LINEARIZED
                                   | ScalarCallable n \<Rightarrow> True) (tu_callables_table t_unit)
      then Inr LINEARIZED else Inr INITIAL)"

definition example_env_on ::
  "(string \<Rightarrow> 'w \<Rightarrow> 'w) \<Rightarrow>
   ((string, string, unit) TranslationUnit \<Rightarrow> 'w \<Rightarrow> (error + unit) \<times> 'w) \<Rightarrow>
   (string, string, unit, string, 'w) collaborators"
where
  "example_env_on note checks =
     \<lparr>CACHING_ENABLED = True,
      ABORT_ON_CACHE_MISS = False,
      tu_state = example_tu_state,
      preprocess_program = (\<lambda>t_unit w. (Inr t_unit, note ''preprocess'' w)),
      infer_unknown_types = (\<lambda>t_unit expect_completion w. (Inr t_unit, note ''infer types'' w)),
      linearize = (\<lambda>t_unit w. (Inr t_unit, note ''linearize'' w)),
      pre_codegen_checks = checks,
      codegen_cache_manager_from_kernel = (\<lambda>knl. ()),
      generate_host_or_device_program = example_emission note,
      device_code = (\<lambda>codegen_result. ''''),
      check_implemented_domains = (\<lambda>knl domains code. Inr True),
      builder_preamble_generators = (\<lambda>builder. []),
      call_preamble_generator = (\<lambda>prea_gen preamble_info w. (Inr [], w)),
      generate_preambles = (\<lambda>clbl target w. (Inr [], w)),
      Collection = (\<lambda>builder asts. concat asts),
      fdecl = (\<lambda>ast. ''declare '' @ ast @ ''; '')\<rparr>"

text \<open>The collaborators on a world that is the list of the notes.\<close>

definition example_env :: "(string, string, unit, string, string list) collaborators" where
  "example_env =
     example_env_on (\<lambda>name w. w @ [name]) (\<lambda>t_unit w. (Inr (), w @ [''check'']))"

text \<open>A unit with one kernel, an entrypoint; a unit with a library function only.\<close>

definition single_kernel_unit :: "(string, string, unit) TranslationUnit" where
  "single_kernel_unit =
     \<lparr>tu_callables_table = [(''knl'', CallableKernel example_kernel)],
      tu_entrypoints = {''knl''},
      tu_target = example_target\<rparr>"

definition no_kernel_unit :: "(string, string, unit) TranslationUnit" where
  "no_kernel_unit =
     \<lparr>tu_callables_table = [(''sin'', ScalarCallable ''sin'')],
      tu_entrypoints = {},
      tu_target = example_target\<rparr>"

definition single_kernel_result :: "string TranslationUnitCodeGenerationResult" where
  "single_kernel_result =
     \<lparr>tcgr_host_programs =
        [(''knl'', Some \<lparr>prg_name = ''_lpy_host_knl'', prg_is_device_program = False,
                         prg_ast = ''host knl''\<rparr>)],
      tcgr_device_programs =
        [\<lparr>prg_name = ''knl'', prg_is_device_program = True, prg_ast = ''device knl''\<rparr>],
      tcgr_host_preambles = [],
      tcgr_device_preambles = []\<rparr>"

text \<open>
  The same collaborators on a world that is the cache and the list of the notes: those
  that leave the cache alone, and those whose checks find the cache with an entry for
  the unit with one kernel, stored meanwhile by another run for the same unit.
\<close>

definition note_beside_cache ::
  "string \<Rightarrow> (string, string, unit, string) code_gen_cache \<times> string list \<Rightarrow>
   (string, string, unit, string) code_gen_cache \<times> string list"
where
  "note_beside_cache name cw = (fst cw, snd cw @ [name])"

definition cached_env ::
  "(string, string, unit, string,
    (string, string, unit, string) code_gen_cache \<times> string list) collaborators"
where
  "cached_env =
     example_env_on note_beside_cache (\<lambda>t_unit cw. (Inr (), note_beside_cache ''check'' cw))"

definition other_result :: "string TranslationUnitCodeGenerationResult" where
  "other_result = single_kernel_result\<lparr>tcgr_device_preambles := [(0, ''/* other run */'')]\<rparr>"

definition racing_env ::
  "(string, string, unit, string,
    (string, string, unit, string) code_gen_cache \<times> string list) collaborators"
where
  "racing_env =
     example_env_on note_beside_cache
       (\<lambda>t_unit cw. (Inr (), ((fst cw)(single_kernel_unit \<mapsto> other_result),
                                snd cw @ [''check''])))"

text \<open>
  A result with two device programs and two host programs, whose preambles come in no
  order of priority and hold one text twice.
\<close>

definition two_program_result :: "string TranslationUnitCodeGenerationResult" where
  "two_program_result =
     \<lparr>tcgr_host_programs =
        [(''f'', Some \<lparr>prg_name = ''f'', prg_is_device_program = False, prg_ast = ''H1''\<rparr>),
         (''g'', Some \<lparr>prg_name = ''g'', prg_is_device_program = False, prg_ast = ''H2''\<rparr>)],
      tcgr_device_programs =
        [\<lparr>prg_name = ''f'', prg_is_device_program = True, prg_ast = ''D1''\<rparr>,
         \<lparr>prg_name = ''g'', prg_is_device_program = True, prg_ast = ''D2''\<rparr>],
      tcgr_host_preambles = [(1, ''B;''), (0, ''A;'')],
      tcgr_device_preambles = [(0, ''A;''), (2, ''C;''), (1, ''B;'')]\<rparr>"

text \<open>A unit whose table lists the kernels \<open>b\<close>, \<open>a\<close>, \<open>c\<close> in this order, none an
  entrypoint, and the same table listed in another order.\<close>

definition three_callees_unit :: "(string, string, unit) TranslationUnit" where
  "three_callees_unit =
     \<lparr>tu_callables_table =
        [(''b'', CallableKernel (kernel_named ''b'' [])),
         (''a'', CallableKernel (kernel_named ''a'' [])),
         (''c'', CallableKernel (kernel_named ''c'' []))],
      tu_entrypoints = {},
      tu_target = example_target\<rparr>"

definition three_callees_reordered :: "(string, string, unit) CallablesTable" where
  "three_callees_reordered =
     [(''c'', CallableKernel (kernel_named ''c'' [])),
      (''b'', CallableKernel (kernel_named ''b'' [])),
      (''a'', CallableKernel (kernel_named ''a'' []))]"

text \<open>
  The result for the unit with the three callees, and collaborators whose emission gives
  two device programs for the kernel \<open>b\<close>.
\<close>

definition three_callees_result :: "string TranslationUnitCodeGenerationResult" where
  "three_callees_result =
     \<lparr>tcgr_host_programs = [],
      tcgr_device_programs =
        [\<lparr>prg_name = ''a'', prg_is_device_program = True,
          prg_ast = ''declare device a; declare device b; declare device c; device a''\<rparr>,
         \<lparr>prg_name = ''b'', prg_is_device_program = True, prg_ast = ''device b''\<rparr>,
         \<lparr>prg_name = ''c'', prg_is_device_program = True, prg_ast = ''device c''\<rparr>],
      tcgr_host_preambles = [],
      tcgr_device_preambles = []\<rparr>"

definition split_emission ::
  "(string \<Rightarrow> 'w \<Rightarrow> 'w) \<Rightarrow> (string, string, unit) CodeGenerationState \<Rightarrow> nat \<Rightarrow> 'w \<Rightarrow>
   (error + string CodeGenerationResult \<times> (string, string, unit) CodeGenerationState) \<times> 'w"
where
  "split_emission note s schedule_index w =
     (if knl_name (cgs_kernel s) = ''b''
      then (Inr (\<lparr>cgr_host_program = None,
                  cgr_device_programs =
                    [\<lparr>prg_name = ''b'', prg_is_device_program = True,
                      prg_ast = ''device b, part 1''\<rparr>,
                     \<lparr>prg_name = ''b_0'', prg_is_device_program = True,
                      prg_ast = ''device b, part 2''\<rparr>],
                  cgr_implemented_domains = [],
                  cgr_host_preambles = [],
                  cgr_device_preambles = []\<rparr>, s),
            note ''emit b'' w)
      else example_emission note s schedule_index w)"

definition splitting_env ::
  "(string, string, unit, string,
    (string, string, unit, string) code_gen_cache \<times> string list) collaborators"
where
  "splitting_env =
     cached_env\<lparr>generate_host_or_device_program := split_emission note_beside_cache\<rparr>"

section \<open>Properties of the code generation state\<close>

subsection \<open>Fixing an iname\<close>

text \<open>
  C4. For a state whose implemented domain has no dimension or parameter named \<open>iname\<close>,
  \<^verbatim>\<open>fix(iname, c)\<close> with a constant affine form \<open>c\<close> (the claim has \<open>k\<close> and 5) returns a
  state whose domain has one more set dimension, the last, named \<open>iname\<close>; the earlier
  dimensions, the parameters and the earlier constraints are as before; the one new
  constraint holds at a point exactly when \<open>iname\<close> is \<open>c\<close> there; the substitution map
  binds \<open>iname\<close> to the constant \<open>c\<close> in addition; no other field differs.
\<close>

theorem fix_adds_dimension_and_equality:
  assumes "iname \<notin> set (get_var_dict (cgs_implemented_domain self))"
  shows "set_dim_names (cgs_implemented_domain (fix_cgs self iname (aff_constant c))) =
           set_dim_names (cgs_implemented_domain self) @ [Some iname]
       \<and> param_names (cgs_implemented_domain (fix_cgs self iname (aff_constant c))) =
           param_names (cgs_implemented_domain self)
       \<and> constraints (cgs_implemented_domain (fix_cgs self iname (aff_constant c))) =
           constraints (cgs_implemented_domain self)
           @ [Equality (iname_rel_aff iname (aff_constant c))]
       \<and> (\<forall>v. constraint_holds v (Equality (iname_rel_aff iname (aff_constant c)))
               = (v iname = c))
       \<and> cgs_var_subst_map (fix_cgs self iname (aff_constant c)) =
           (cgs_var_subst_map self)(iname \<mapsto> Constant c)
       \<and> (fix_cgs self iname (aff_constant c))
            \<lparr>cgs_implemented_domain := cgs_implemented_domain self,
             cgs_var_subst_map := cgs_var_subst_map self\<rparr> = self"
  using assms
  by (simp add: fix_cgs_def Let_def add_constraint_def set_dim_name_def add_dims_def
      dim_set_def copy_and_assign_def equality_from_aff_def pw_aff_to_expr_def
      aff_constant_def iname_rel_aff_def aff_eval_def)

theorem fix_adds_dimension_and_equality_witness:
  "''k'' \<notin> set (get_var_dict (cgs_implemented_domain example_state))
   \<and> set_dim_names (cgs_implemented_domain (fix_cgs example_state ''k'' (aff_constant 5))) =
       [Some ''i'', Some ''k'']
   \<and> cgs_var_subst_map (fix_cgs example_state ''k'' (aff_constant 5)) ''k'' = Some (Constant 5)"
proof -
  have absent: "''k'' \<notin> set (get_var_dict (cgs_implemented_domain example_state))"
    by (simp add: example_state_def example_domain_def get_var_dict_def)
  show ?thesis
    using absent fix_adds_dimension_and_equality [OF absent, of 5]
    by (simp add: example_state_def example_domain_def)
qed

subsection \<open>The AST builder of a state\<close>

text \<open>
  C9. The claim: the builder is the device builder of the field \<^verbatim>\<open>target\<close> of the state
  when device code is generated, the host builder of that field otherwise. The source
  reads the target of the kernel instead: in the example state, whose field
  \<^verbatim>\<open>target\<close> and whose kernel's target differ, the builder is the one of the kernel's
  target, and changing the field \<^verbatim>\<open>target\<close> changes nothing.
\<close>

theorem ast_builder_reads_kernel_target:
  "ast_builder example_state = ''kernel_device_builder''
   \<and> get_device_ast_builder (cgs_target example_state) = ''state_device_builder''
   \<and> ast_builder (example_state\<lparr>cgs_target := example_kernel_target\<rparr>)
       = ast_builder example_state"
  by (simp add: ast_builder_def example_state_def example_kernel_def
      example_kernel_target_def example_target_def)

section \<open>Properties of the vectorization engine\<close>

lemma unvectorize_loop_call_in_order:
  "unvectorize_loop func novec iname lanes acc w =
     (case call_in_order func (map (\<lambda>i. fix_cgs novec iname (aff_constant i)) lanes) w of
        (Inl e, w') \<Rightarrow> (Inl e, w')
      | (Inr gs, w') \<Rightarrow> (Inr (acc @ concat (map fragments gs)), w'))"
  by (induction lanes arbitrary: acc w)
     (auto split: prod.splits sum.splits generated.splits)

lemma call_in_order_logged:
  "call_in_order (logged func) ss (log, w) = (Inr gs, lw) \<Longrightarrow> fst lw = log @ ss"
  by (induction ss arbitrary: log w gs)
     (auto simp: logged_def split: prod.splits sum.splits)

lemma call_in_order_succeeds:
  "(\<And>s w. s \<in> set ss \<Longrightarrow> \<exists>g w'. func s w = (Inr g, w')) \<Longrightarrow>
   \<exists>gs w'. call_in_order func ss w = (Inr gs, w')"
proof (induction ss arbitrary: w)
  case Nil
  then show ?case by simp
next
  case (Cons s ss)
  from Cons.prems [of s w] obtain g w1 where first: "func s w = (Inr g, w1)"
    by auto
  from Cons.IH [of w1] Cons.prems obtain gs w2
    where rest: "call_in_order func ss w1 = (Inr gs, w2)"
    by auto
  from first rest show ?case by simp
qed

lemma unvectorize_call_in_order:
  assumes "cgs_vectorization_info self = Some vinf"
  shows "unvectorize merge func self w =
           (case call_in_order func
                   (map (lane_state self (vec_iname vinf)) (py_range (vec_length vinf))) w of
              (Inl e, w') \<Rightarrow> (Inl e, w')
            | (Inr gs, w') \<Rightarrow> (Inr (merge self (concat (map fragments gs))), w'))"
proof -
  have "lane_state self (vec_iname vinf) =
          (\<lambda>i. fix_cgs (self\<lparr>cgs_vectorization_info := None\<rparr>) (vec_iname vinf)
                 (aff_constant i))"
    by (simp add: lane_state_def fun_eq_iff)
  then show ?thesis
    using assms
    by (simp add: unvectorize_def Let_def unvectorize_loop_call_in_order
        split: prod.splits sum.splits)
qed

lemma lane_state_not_vectorizing: "cgs_vectorization_info (lane_state self iname i) = None"
  by (simp add: lane_state_def fix_cgs_def Let_def copy_and_assign_def)

lemma lane_state_binds_iname:
  "cgs_var_subst_map (lane_state self iname i) iname = Some (Constant i)"
  by (simp add: lane_state_def fix_cgs_def Let_def copy_and_assign_def pw_aff_to_expr_def
      aff_constant_def)

lemma py_range_upt: "py_range n = map int [0..<nat n]"
  unfolding py_range_def by (rule nth_equalityI) auto

subsection \<open>Lanes of the fallback\<close>

text \<open>
  C2. For a state whose vectorization info is \<open>vinf\<close>, \<^verbatim>\<open>unvectorize(func)\<close> is: call
  \<open>func\<close> in order on the lane states of the indices \<open>0, \<dots>, length - 1\<close> (each the
  state with the vectorization info removed and the iname fixed to the index), stop at
  an exception, otherwise merge the fragments of the calls in lane order, where a
  \<^verbatim>\<open>None\<close> contributes nothing, a list its elements and a single result itself. When
  \<^verbatim>\<open>unvectorize\<close> returns, the states on which \<open>func\<close> was called, as a logging
  \<open>func\<close> records them, are exactly those lane states in that order, one call each.
\<close>

theorem unvectorize_calls_each_lane_in_order:
  assumes "cgs_vectorization_info self = Some vinf"
  shows "unvectorize merge func self w =
           (case call_in_order func
                   (map (lane_state self (vec_iname vinf)) (py_range (vec_length vinf))) w of
              (Inl e, w') \<Rightarrow> (Inl e, w')
            | (Inr gs, w') \<Rightarrow> (Inr (merge self (concat (map fragments gs))), w'))
       \<and> py_range (vec_length vinf) = map int [0..<nat (vec_length vinf)]
       \<and> (\<forall>log r lw. unvectorize merge (logged func) self (log, w) = (Inr r, lw) \<longrightarrow>
             fst lw = log @ map (lane_state self (vec_iname vinf)) (py_range (vec_length vinf)))"
proof -
  note eq = unvectorize_call_in_order [OF assms]
  have log: "fst lw = log @ map (lane_state self (vec_iname vinf)) (py_range (vec_length vinf))"
    if "unvectorize merge (logged func) self (log, w) = (Inr r, lw)" for log r lw
  proof -
    from that obtain gs where
      "call_in_order (logged func)
         (map (lane_state self (vec_iname vinf)) (py_range (vec_length vinf))) (log, w)
       = (Inr gs, lw)"
      by (auto simp: eq split: prod.splits sum.splits)
    then show ?thesis by (rule call_in_order_logged)
  qed
  from eq [of merge func w] py_range_upt log show ?thesis by blast
qed

theorem unvectorize_calls_each_lane_in_order_witness:
  "cgs_vectorization_info example_vec_state = Some example_vinf
   \<and> unvectorize example_merge emit_scalar_only example_vec_state [] = (Inr [0, 1, 2, 3], [])"
proof -
  have vec: "cgs_vectorization_info example_vec_state = Some example_vinf"
    by (simp add: example_vec_state_def)
  have lanes: "py_range (vec_length example_vinf) = [0, 1, 2, 3]"
    by (simp add: py_range_def example_vinf_def upto_rec1)
  have iname: "vec_iname example_vinf = ''i''"
    by (simp add: example_vinf_def)
  note calls =
    unvectorize_calls_each_lane_in_order
      [OF vec, of example_merge emit_scalar_only "[]", THEN conjunct1]
  have "unvectorize example_merge emit_scalar_only example_vec_state [] = (Inr [0, 1, 2, 3], [])"
    unfolding calls lanes iname
    by (simp add: emit_scalar_only_def lane_state_not_vectorizing lane_state_binds_iname
        example_merge_def)
  with vec show ?thesis by simp
qed

subsection \<open>Failure of vectorization\<close>

text \<open>
  C1, as the claim has it: an \<^verbatim>\<open>UnvectorizableError\<close> raised by \<open>func\<close> never leaves
  \<^verbatim>\<open>try_vectorized\<close>. It does: in a state without vectorization info the call of
  \<open>func\<close> is not guarded, and in a vectorizing state the calls for the single lanes
  are not guarded either.
\<close>

theorem try_vectorized_lets_error_through:
  "fst (try_vectorized example_warn example_merge ''insn'' emit_unvectorizable
          example_state [])
     = Inl (UnvectorizableError ''no vector form'')
   \<and> fst (try_vectorized example_warn example_merge ''insn'' emit_unvectorizable
          example_vec_state [])
     = Inl (UnvectorizableError ''no vector form'')"
  by (simp add: try_vectorized_def unvectorize_def emit_unvectorizable_def
      example_vec_state_def example_state_def example_vinf_def py_range_def upto_rec1)

text \<open>
  C1, amended. In a state without vectorization info, \<^verbatim>\<open>try_vectorized\<close> is the call
  of \<open>func\<close> on the state and nothing else: whatever \<open>func\<close> returns or raises,
  \<^verbatim>\<open>UnvectorizableError\<close> too, is the outcome, and no warning is issued. In a state with
  vectorization info, an \<^verbatim>\<open>UnvectorizableError\<close> raised by the call of \<open>func\<close> on that
  state is caught: the warning \<^verbatim>\<open>vectorize_failed\<close> is issued for the kernel, with the
  label and the reason in its text, and the outcome is that of \<^verbatim>\<open>unvectorize(func)\<close>. It
  is a result, and no exception, whenever \<open>func\<close> returns on every lane state; an
  exception that \<open>func\<close> raises on a lane state is the outcome of \<^verbatim>\<open>try_vectorized\<close>,
  uncaught. Any other outcome of the call of \<open>func\<close> on the state is returned as it is.
\<close>

theorem try_vectorized_falls_back:
  "(cgs_vectorization_info self = None \<longrightarrow>
      try_vectorized warn merge what func self w = func self w)
   \<and> (\<forall>vinf reason w1.
         cgs_vectorization_info self = Some vinf \<and>
         func self w = (Inl (UnvectorizableError reason), w1) \<longrightarrow>
         try_vectorized warn merge what func self w =
           (case unvectorize merge func self
                   (warn (cgs_kernel self) ''vectorize_failed''
                      (vectorize_failed_text what reason) w1) of
              (Inl e, w2) \<Rightarrow> (Inl e, w2)
            | (Inr r, w2) \<Rightarrow> (Inr (GenOne r), w2))
         \<and> ((\<forall>i \<in> set (py_range (vec_length vinf)). \<forall>v. \<exists>g v'.
                func (lane_state self (vec_iname vinf) i) v = (Inr g, v')) \<longrightarrow>
              (\<exists>r w2. try_vectorized warn merge what func self w = (Inr (GenOne r), w2)))
         \<and> (\<forall>e w2.
               call_in_order func
                 (map (lane_state self (vec_iname vinf)) (py_range (vec_length vinf)))
                 (warn (cgs_kernel self) ''vectorize_failed''
                    (vectorize_failed_text what reason) w1) = (Inl e, w2) \<longrightarrow>
               try_vectorized warn merge what func self w = (Inl e, w2)))
   \<and> (\<forall>vinf.
         cgs_vectorization_info self = Some vinf \<and>
         (\<forall>reason. fst (func self w) \<noteq> Inl (UnvectorizableError reason)) \<longrightarrow>
         try_vectorized warn merge what func self w = func self w)"
proof -
  have scalar: "try_vectorized warn merge what func self w = func self w"
    if "cgs_vectorization_info self = None"
    using that by (simp add: try_vectorized_def)
  have caught: "try_vectorized warn merge what func self w =
           (case unvectorize merge func self
                   (warn (cgs_kernel self) ''vectorize_failed''
                      (vectorize_failed_text what reason) w1) of
              (Inl e, w2) \<Rightarrow> (Inl e, w2)
            | (Inr r, w2) \<Rightarrow> (Inr (GenOne r), w2))"
    if "cgs_vectorization_info self = Some vinf"
      and "func self w = (Inl (UnvectorizableError reason), w1)"
    for vinf reason w1
    using that by (simp add: try_vectorized_def)
  have returns: "\<exists>r w2. try_vectorized warn merge what func self w = (Inr (GenOne r), w2)"
    if vec: "cgs_vectorization_info self = Some vinf"
      and fails: "func self w = (Inl (UnvectorizableError reason), w1)"
      and lanes: "\<forall>i \<in> set (py_range (vec_length vinf)). \<forall>v. \<exists>g v'.
               func (lane_state self (vec_iname vinf) i) v = (Inr g, v')"
    for vinf reason w1
  proof -
    have "\<exists>gs w'. call_in_order func
            (map (lane_state self (vec_iname vinf)) (py_range (vec_length vinf)))
            (warn (cgs_kernel self) ''vectorize_failed''
               (vectorize_failed_text what reason) w1) = (Inr gs, w')"
      by (rule call_in_order_succeeds) (use lanes in auto)
    then show ?thesis
      by (auto simp: caught [OF vec fails] unvectorize_call_in_order [OF vec])
  qed
  have propagates: "try_vectorized warn merge what func self w = (Inl e, w2)"
    if vec: "cgs_vectorization_info self = Some vinf"
      and fails: "func self w = (Inl (UnvectorizableError reason), w1)"
      and lane: "call_in_order func
                 (map (lane_state self (vec_iname vinf)) (py_range (vec_length vinf)))
                 (warn (cgs_kernel self) ''vectorize_failed''
                    (vectorize_failed_text what reason) w1) = (Inl e, w2)"
    for vinf reason w1 e w2
    by (simp add: caught [OF vec fails] unvectorize_call_in_order [OF vec] lane)
  have other: "try_vectorized warn merge what func self w = func self w"
    if vec: "cgs_vectorization_info self = Some vinf"
      and no: "\<forall>reason. fst (func self w) \<noteq> Inl (UnvectorizableError reason)"
    for vinf
  proof (cases "func self w")
    case (Pair outcome w1)
    show ?thesis
    proof (cases outcome)
      case (Inl e)
      with Pair no have "\<forall>reason. e \<noteq> UnvectorizableError reason" by simp
      with Pair Inl vec show ?thesis
        by (cases e) (simp_all add: try_vectorized_def)
    next
      case (Inr g)
      with Pair vec show ?thesis by (simp add: try_vectorized_def)
    qed
  qed
  from scalar caught returns propagates other show ?thesis
    by (intro conjI allI impI; (elim conjE)?) blast+
qed

theorem try_vectorized_falls_back_witness:
  "cgs_vectorization_info example_vec_state = Some example_vinf
   \<and> emit_scalar_only example_vec_state [] = (Inl (UnvectorizableError ''no vector form''), [])
   \<and> try_vectorized example_warn example_merge ''insn'' emit_scalar_only example_vec_state []
       = (Inr (GenOne [0, 1, 2, 3]), [''vectorize_failed''])
   \<and> cgs_vectorization_info example_state = None
   \<and> try_vectorized example_warn example_merge ''insn'' emit_unvectorizable example_state []
       = (Inl (UnvectorizableError ''no vector form''), [])"
proof -
  have vec: "cgs_vectorization_info example_vec_state = Some example_vinf"
    by (simp add: example_vec_state_def)
  have fails: "emit_scalar_only example_vec_state []
                 = (Inl (UnvectorizableError ''no vector form''), [])"
    by (simp add: emit_scalar_only_def example_vec_state_def)
  have lanes: "py_range (vec_length example_vinf) = [0, 1, 2, 3]"
    by (simp add: py_range_def example_vinf_def upto_rec1)
  have iname: "vec_iname example_vinf = ''i''"
    by (simp add: example_vinf_def)
  have scalar: "cgs_vectorization_info example_state = None"
    by (simp add: example_state_def)
  from try_vectorized_falls_back
         [of example_vec_state example_warn example_merge "''insn''" emit_scalar_only "[]"]
       vec fails
  have caught:
    "try_vectorized example_warn example_merge ''insn'' emit_scalar_only example_vec_state []
       = (case unvectorize example_merge emit_scalar_only example_vec_state
                 (example_warn (cgs_kernel example_vec_state) ''vectorize_failed''
                    (vectorize_failed_text ''insn'' ''no vector form'') []) of
            (Inl e, w2) \<Rightarrow> (Inl e, w2)
          | (Inr r, w2) \<Rightarrow> (Inr (GenOne r), w2))"
    by blast
  have unrolled:
    "try_vectorized example_warn example_merge ''insn'' emit_scalar_only example_vec_state []
       = (Inr (GenOne [0, 1, 2, 3]), [''vectorize_failed''])"
    unfolding caught unvectorize_call_in_order [OF vec] lanes iname
    by (simp add: emit_scalar_only_def lane_state_not_vectorizing lane_state_binds_iname
        example_merge_def example_warn_def)
  from try_vectorized_falls_back
         [of example_state example_warn example_merge "''insn''" emit_unvectorizable "[]"]
       scalar
  have through:
    "try_vectorized example_warn example_merge ''insn'' emit_unvectorizable example_state []
       = emit_unvectorizable example_state []"
    by blast
  from vec fails unrolled scalar through show ?thesis
    by (simp add: emit_unvectorizable_def)
qed

section \<open>Properties of the single-kernel driver\<close>

lemma extend_preambles_error:
  "extend_preambles env gens preamble_info preambles w = (Inl e, w') \<Longrightarrow>
   \<exists>prea_gen v. fst (call_preamble_generator env prea_gen preamble_info v) = Inl e"
proof (induction gens arbitrary: preambles w)
  case Nil
  then show ?case by simp
next
  case (Cons prea_gen gens)
  show ?case
  proof (cases "call_preamble_generator env prea_gen preamble_info w")
    case (Pair outcome w1)
    show ?thesis
    proof (cases outcome)
      case (Inl e1)
      with Pair Cons.prems have "e1 = e" by simp
      with Pair Inl have "fst (call_preamble_generator env prea_gen preamble_info w) = Inl e"
        by simp
      then show ?thesis by blast
    next
      case (Inr new)
      with Pair Cons.prems
      have "extend_preambles env gens preamble_info (preambles @ new) w1 = (Inl e, w')"
        by simp
      then show ?thesis by (rule Cons.IH)
    qed
  qed
qed

lemma handle_preambles_error:
  assumes "handle_preambles env knl target codegen_result emitted_state w = (Inl e, w')"
  shows "\<exists>prea_gen preamble_info v.
           fst (call_preamble_generator env prea_gen preamble_info v) = Inl e"
proof -
  from assms obtain gens preamble_info preambles
    where "extend_preambles env gens preamble_info preambles w = (Inl e, w')"
    by (auto simp: handle_preambles_def Let_def split: prod.splits sum.splits)
  then show ?thesis by (blast dest: extend_preambles_error)
qed

lemma handle_preambles_result:
  "handle_preambles env knl target codegen_result emitted_state w = (Inr r, w') \<Longrightarrow>
   r = codegen_result\<lparr>cgr_device_preambles := cgr_device_preambles r\<rparr>"
  by (auto simp: handle_preambles_def Let_def split: prod.splits sum.splits)

lemma examine_arg_list_error: "examine_arg_list vars flag = Inl e \<Longrightarrow> e = AssertionError"
  by (induction vars flag rule: examine_arg_list.induct) auto

lemma driver_error_sources:
  assumes run: "generate_code_for_a_single_kernel env knl callables_table target is_entrypoint w
                  = (Inl e, w')"
      and lin: "knl_state knl = LINEARIZED"
  shows "e = AssertionError
       \<or> (\<exists>st v. fst (generate_host_or_device_program env st 0 v) = Inl e)
       \<or> (\<exists>domains code. check_implemented_domains env knl domains code = Inl e)
       \<or> (\<exists>prea_gen preamble_info v.
             fst (call_preamble_generator env prea_gen preamble_info v) = Inl e)"
proof (cases "examine_arg_list (knl_args knl @ map snd (knl_temporary_variables knl)) False")
  case (Inl e1)
  with run lin show ?thesis
    by (auto simp: generate_code_for_a_single_kernel_def dest: examine_arg_list_error)
next
  case (Inr allow_complex)
  show ?thesis
  proof (cases "knl_linearization knl")
    case None
    with run lin Inr show ?thesis
      by (simp add: generate_code_for_a_single_kernel_def)
  next
    case (Some linearization)
    let ?st = "initial_codegen_state env knl callables_table target is_entrypoint
                 allow_complex linearization"
    show ?thesis
    proof (cases "generate_host_or_device_program env ?st 0 w")
      case (Pair outcome w1)
      show ?thesis
      proof (cases outcome)
        case (Inl e1)
        with run lin Inr Some Pair have "e1 = e"
          by (simp add: generate_code_for_a_single_kernel_def)
        with Pair Inl have "fst (generate_host_or_device_program env ?st 0 w) = Inl e"
          by simp
        then show ?thesis by blast
      next
        case emitted: (Inr pair)
        obtain codegen_result emitted_state where pair: "pair = (codegen_result, emitted_state)"
          by (cases pair)
        show ?thesis
        proof (cases "check_implemented_domains env knl
                        (cgr_implemented_domains codegen_result)
                        (device_code env codegen_result)")
          case (Inl e1)
          with run lin Inr Some Pair emitted pair have "e1 = e"
            by (simp add: generate_code_for_a_single_kernel_def)
          with Inl show ?thesis by blast
        next
          case checked: (Inr ok)
          show ?thesis
          proof (cases ok)
            case True
            with run lin Inr Some Pair emitted pair checked
            have "handle_preambles env knl target codegen_result emitted_state w1 = (Inl e, w')"
              by (simp add: generate_code_for_a_single_kernel_def)
            then show ?thesis by (blast dest: handle_preambles_error)
          next
            case False
            with run lin Inr Some Pair emitted pair checked show ?thesis
              by (simp add: generate_code_for_a_single_kernel_def)
          qed
        qed
      qed
    qed
  qed
qed

text \<open>
  C5. Provided that no collaborator raises the error of the precondition itself, the
  driver fails with the \<^verbatim>\<open>LoopyError\<close> for a kernel that has not been scheduled exactly
  when the state of the kernel is not \<^verbatim>\<open>LINEARIZED\<close>; it then fails before anything
  else is done, the world being as before. A result of the driver is the result of the
  emission on the initial state of the kernel, with the preambles added: for a
  linearized kernel the check passes and the emission proceeds.
\<close>

theorem single_kernel_driver_requires_linearized:
  assumes "\<forall>st v. fst (generate_host_or_device_program env st 0 v)
                    \<noteq> Inl (LoopyError not_scheduled_text)"
      and "\<forall>domains code. check_implemented_domains env knl domains code
                    \<noteq> Inl (LoopyError not_scheduled_text)"
      and "\<forall>prea_gen preamble_info v. fst (call_preamble_generator env prea_gen preamble_info v)
                    \<noteq> Inl (LoopyError not_scheduled_text)"
  shows "(fst (generate_code_for_a_single_kernel env knl callables_table target is_entrypoint w)
            = Inl (LoopyError not_scheduled_text))
           = (knl_state knl \<noteq> LINEARIZED)
       \<and> (knl_state knl \<noteq> LINEARIZED \<longrightarrow>
            generate_code_for_a_single_kernel env knl callables_table target is_entrypoint w
              = (Inl (LoopyError not_scheduled_text), w))
       \<and> (\<forall>r w'. generate_code_for_a_single_kernel env knl callables_table target is_entrypoint w
                    = (Inr r, w') \<longrightarrow>
            knl_state knl = LINEARIZED
            \<and> (\<exists>allow_complex linearization codegen_result emitted_state w1.
                 generate_host_or_device_program env
                   (initial_codegen_state env knl callables_table target is_entrypoint
                      allow_complex linearization) 0 w
                   = (Inr (codegen_result, emitted_state), w1)
                 \<and> r = codegen_result\<lparr>cgr_device_preambles := cgr_device_preambles r\<rparr>))"
proof -
  let ?run = "generate_code_for_a_single_kernel env knl callables_table target is_entrypoint w"
  have unscheduled: "?run = (Inl (LoopyError not_scheduled_text), w)"
    if "knl_state knl \<noteq> LINEARIZED"
    using that by (simp add: generate_code_for_a_single_kernel_def)
  have scheduled: "fst ?run \<noteq> Inl (LoopyError not_scheduled_text)"
    if lin: "knl_state knl = LINEARIZED"
  proof
    assume failed: "fst ?run = Inl (LoopyError not_scheduled_text)"
    then obtain w' where run: "?run = (Inl (LoopyError not_scheduled_text), w')"
      by (cases ?run) auto
    from driver_error_sources [OF run lin] assms show False
      by auto
  qed
  have proceeds: "knl_state knl = LINEARIZED
            \<and> (\<exists>allow_complex linearization codegen_result emitted_state w1.
                 generate_host_or_device_program env
                   (initial_codegen_state env knl callables_table target is_entrypoint
                      allow_complex linearization) 0 w
                   = (Inr (codegen_result, emitted_state), w1)
                 \<and> r = codegen_result\<lparr>cgr_device_preambles := cgr_device_preambles r\<rparr>)"
    if "?run = (Inr r, w')" for r w'
  proof -
    from that have lin: "knl_state knl = LINEARIZED"
      by (auto simp: generate_code_for_a_single_kernel_def split: if_splits)
    from that lin obtain allow_complex linearization codegen_result emitted_state w1
      where emit: "generate_host_or_device_program env
                     (initial_codegen_state env knl callables_table target is_entrypoint
                        allow_complex linearization) 0 w
                   = (Inr (codegen_result, emitted_state), w1)"
        and pre: "handle_preambles env knl target codegen_result emitted_state w1 = (Inr r, w')"
      by (auto simp: generate_code_for_a_single_kernel_def
          split: sum.splits option.splits prod.splits bool.splits)
    from handle_preambles_result [OF pre] emit lin show ?thesis by blast
  qed
  from unscheduled scheduled proceeds show ?thesis
    by (cases "knl_state knl = LINEARIZED") auto
qed

lemma example_driver:
  "generate_code_for_a_single_kernel (example_env_on note checks) (kernel_named name callees)
     table example_target is_entrypoint w =
   (Inr \<lparr>cgr_host_program =
           (if is_entrypoint
            then Some \<lparr>prg_name = ''_lpy_host_'' @ name, prg_is_device_program = False,
                       prg_ast = ''host '' @ name\<rparr>
            else None),
         cgr_device_programs =
           [\<lparr>prg_name = name, prg_is_device_program = True, prg_ast = ''device '' @ name\<rparr>],
         cgr_implemented_domains = [],
         cgr_host_preambles = [],
         cgr_device_preambles = []\<rparr>,
    note (''emit '' @ name) w)"
  by (simp add: generate_code_for_a_single_kernel_def kernel_named_def example_kernel_def
      example_env_on_def example_emission_def initial_codegen_state_def handle_preambles_def
      example_target_def example_kernel_target_def)

lemma example_kernel_named: "example_kernel = kernel_named ''knl'' []"
  by (simp add: kernel_named_def example_kernel_def)

theorem single_kernel_driver_requires_linearized_witness:
  "(\<forall>st v. fst (generate_host_or_device_program example_env st 0 v)
              \<noteq> Inl (LoopyError not_scheduled_text))
   \<and> (\<forall>domains code. check_implemented_domains example_env example_kernel domains code
              \<noteq> Inl (LoopyError not_scheduled_text))
   \<and> (\<forall>prea_gen preamble_info v.
         fst (call_preamble_generator example_env prea_gen preamble_info v)
              \<noteq> Inl (LoopyError not_scheduled_text))
   \<and> fst (generate_code_for_a_single_kernel example_env example_kernel [] example_target True [])
        \<noteq> Inl (LoopyError not_scheduled_text)
   \<and> snd (generate_code_for_a_single_kernel example_env example_kernel [] example_target True [])
        = [''emit knl'']
   \<and> generate_code_for_a_single_kernel example_env
         (example_kernel\<lparr>knl_state := PREPROCESSED\<rparr>) [] example_target True []
        = (Inl (LoopyError not_scheduled_text), [])"
proof -
  have emit: "\<forall>st v. fst (generate_host_or_device_program example_env st 0 v)
                \<noteq> Inl (LoopyError not_scheduled_text)"
    by (simp add: example_env_def example_env_on_def example_emission_def)
  have chk: "\<forall>domains code. check_implemented_domains example_env knl domains code
                \<noteq> Inl (LoopyError not_scheduled_text)" for knl
    by (simp add: example_env_def example_env_on_def)
  have gen: "\<forall>prea_gen preamble_info v.
               fst (call_preamble_generator example_env prea_gen preamble_info v)
                \<noteq> Inl (LoopyError not_scheduled_text)"
    by (simp add: example_env_def example_env_on_def)
  have scheduled: "knl_state example_kernel = LINEARIZED"
    by (simp add: example_kernel_def)
  show ?thesis
    using emit chk [of example_kernel] gen scheduled
      single_kernel_driver_requires_linearized
        [OF emit chk [of example_kernel] gen, of "[]" example_target True "[]"]
      single_kernel_driver_requires_linearized
        [OF emit chk [of "example_kernel\<lparr>knl_state := PREPROCESSED\<rparr>"] gen,
         of "[]" example_target True "[]"]
    by (simp add: example_kernel_named example_env_def example_driver)
qed

section \<open>Properties of the divergence of callee entrypoints\<close>

lemma reachable_in_example:
  "get_reachable_resolved_callable_ids (tu_callables_table callee_entrypoint_unit)
     (tu_entrypoints callee_entrypoint_unit) = [''g'']"
  by (simp add: get_reachable_resolved_callable_ids_def callee_entrypoint_unit_def
      callees_of_def kernel_named_def eval_nat_numeral)

lemma fresh_name_in_example: "vng [''main'', ''g''] ''g'' = (''g_0'', [''g_0'', ''main'', ''g''])"
  by (simp add: vng_def string_of_nat.simps digit_char_def)

text \<open>
  C3. The claim: a callable that is an entrypoint and reachable as a callee has two
  bodies afterwards, one under its own name and one under a fresh name. In the unit
  where \<open>main\<close> calls \<open>g\<close> and both are entrypoints, the table afterwards holds \<open>main\<close>,
  which calls \<open>g_0\<close>, and \<open>g_0\<close>: the callable \<open>g\<close> has been moved to the fresh name,
  and the name \<open>g\<close>, still an entrypoint, is in the table no more.
\<close>

theorem diverge_drops_entrypoint_body:
  "tu_callables_table (diverge_callee_entrypoints callee_entrypoint_unit) =
     [(''main'', CallableKernel (kernel_named ''main'' [''g_0''])),
      (''g_0'', CallableKernel (kernel_named ''g_0'' []))]
   \<and> ''g'' \<in> tu_entrypoints (diverge_callee_entrypoints callee_entrypoint_unit)
   \<and> map_of (tu_callables_table (diverge_callee_entrypoints callee_entrypoint_unit)) ''g''
       = None"
  unfolding diverge_callee_entrypoints_def Let_def reachable_in_example
  by (simp add: callee_entrypoint_unit_def make_callable_name_generator_def
      fresh_name_in_example renamed_def rename_resolved_functions_in_a_single_kernel_def
      kernel_named_def Let_def example_kernel_def)

section \<open>Properties of the rendering\<close>

lemma host_program_strs_present:
  "\<forall>hp \<in> set hps. snd hp \<noteq> None \<Longrightarrow>
   host_program_strs str_ast hps = Inr (map (\<lambda>hp. str_ast (prg_ast (the (snd hp)))) hps)"
  by (induction hps rule: host_program_strs.induct [of _ str_ast]) auto

text \<open>Joining: the first string, then every further string behind a separator.\<close>

lemma str_join_Cons: "str_join sep (x # xs) = x @ concat (map (\<lambda>y. sep @ y) xs)"
  by (induction xs arbitrary: x) simp_all

lemma str_join_cases:
  "str_join sep xs = (case xs of [] \<Rightarrow> [] | x # rest \<Rightarrow> x @ concat (map (\<lambda>y. sep @ y) rest))"
  by (cases xs) (simp_all add: str_join_Cons)

text \<open>What dropping the seen texts keeps.\<close>

lemma drop_seen_texts_subset: "set (drop_seen_texts seen ps) \<subseteq> set ps"
  by (induction seen ps rule: drop_seen_texts.induct) auto

lemma drop_seen_texts_sorted:
  "sorted (map fst ps) \<Longrightarrow> sorted (map fst (drop_seen_texts seen ps))"
proof (induction seen ps rule: drop_seen_texts.induct)
  case (1 seen)
  then show ?case by simp
next
  case (2 seen priority code preambles)
  have "q \<in> set preambles"
    if "q \<in> set (drop_seen_texts (code # seen) preambles)" for q
    using that drop_seen_texts_subset [of "code # seen" preambles] by auto
  with 2 show ?case by fastforce
qed

lemma drop_seen_texts_fresh:
  "q \<in> set (drop_seen_texts seen ps) \<Longrightarrow> snd q \<notin> set seen"
  by (induction seen ps rule: drop_seen_texts.induct) (auto split: if_splits)

lemma drop_seen_texts_distinct: "distinct (map snd (drop_seen_texts seen ps))"
  by (induction seen ps rule: drop_seen_texts.induct)
     (auto dest: drop_seen_texts_fresh)

lemma drop_seen_texts_texts:
  "snd ` set (drop_seen_texts seen ps) = snd ` set ps - set seen"
  by (induction seen ps rule: drop_seen_texts.induct) auto

lemma drop_seen_texts_least:
  "sorted (map fst ps) \<Longrightarrow> q \<in> set (drop_seen_texts seen ps) \<Longrightarrow> q' \<in> set ps \<Longrightarrow>
   snd q' = snd q \<Longrightarrow> fst q \<le> fst q'"
proof (induction seen ps rule: drop_seen_texts.induct)
  case (1 seen)
  then show ?case by simp
next
  case (2 seen priority code preambles)
  show ?case
  proof (cases "code \<in> set seen")
    case True
    with "2.prems"(2) have kept: "q \<in> set (drop_seen_texts seen preambles)" by simp
    then have "snd q \<notin> set seen" by (rule drop_seen_texts_fresh)
    with True "2.prems"(3,4) have "q' \<in> set preambles" by auto
    with "2.IH"(1) [OF True _ kept] "2.prems"(1,4) show ?thesis by simp
  next
    case False
    show ?thesis
    proof (cases "q = (priority, code)")
      case True
      with "2.prems"(1,3) show ?thesis by auto
    next
      case other: False
      with False "2.prems"(2)
      have kept: "q \<in> set (drop_seen_texts (code # seen) preambles)" by simp
      then have "snd q \<notin> set (code # seen)" by (rule drop_seen_texts_fresh)
      with "2.prems"(3,4) have "q' \<in> set preambles" by auto
      with "2.IH"(2) [OF False _ kept] "2.prems"(1,4) show ?thesis by simp
    qed
  qed
qed

lemma process_preambles_rendering:
  "distinct (process_preambles ps)
   \<and> set (process_preambles ps) = snd ` set ps
   \<and> (\<exists>qs. process_preambles ps = map snd qs \<and> sorted (map fst qs) \<and> set qs \<subseteq> set ps
          \<and> (\<forall>q \<in> set qs. \<forall>q' \<in> set ps. snd q' = snd q \<longrightarrow> fst q \<le> fst q'))"
proof -
  let ?sorted = "sort_key fst ps"
  let ?qs = "drop_seen_texts [] ?sorted"
  have ordered: "sorted (map fst ?sorted)" by (rule sorted_sort_key)
  have same: "set ?sorted = set ps" by simp
  have "distinct (process_preambles ps)"
    by (simp add: process_preambles_def drop_seen_texts_distinct)
  moreover have "set (process_preambles ps) = snd ` set ps"
    using drop_seen_texts_texts [of "[]" ?sorted] by (simp add: process_preambles_def)
  moreover have "sorted (map fst ?qs)"
    using ordered by (rule drop_seen_texts_sorted)
  moreover have "set ?qs \<subseteq> set ps"
    using drop_seen_texts_subset [of "[]" ?sorted] by simp
  moreover have "\<forall>q \<in> set ?qs. \<forall>q' \<in> set ps. snd q' = snd q \<longrightarrow> fst q \<le> fst q'"
    using drop_seen_texts_least [OF ordered] same by blast
  ultimately show ?thesis
    unfolding process_preambles_def by blast
qed

text \<open>
  C8. For a result whose host programs are all present, as the class declares them,
  \<^verbatim>\<open>all_code()\<close> is: the preamble codes made of the host preambles followed by the device
  preambles, one after the other; a newline; the device programs in list order, each
  but the first behind a blank line; a blank line; the host programs in the order of
  the dictionary, each but the first behind a blank line. So the device programs come
  before the host programs. The preamble codes hold every text of the preambles once;
  they are in the order of the priorities, each text standing with the least priority
  under which it came.
\<close>

theorem all_code_layout:
  assumes "\<forall>hp \<in> set (tcgr_host_programs self). snd hp \<noteq> None"
  shows "all_code str_ast self =
           Inr (concat (process_preambles (tcgr_host_preambles self @ tcgr_device_preambles self))
                @ [CHR 0x0A]
                @ (case map (\<lambda>dp. str_ast (prg_ast dp)) (tcgr_device_programs self) of
                     [] \<Rightarrow> []
                   | d # ds \<Rightarrow> d @ concat (map (\<lambda>y. [CHR 0x0A, CHR 0x0A] @ y) ds))
                @ [CHR 0x0A, CHR 0x0A]
                @ (case map (\<lambda>hp. str_ast (prg_ast (the (snd hp)))) (tcgr_host_programs self) of
                     [] \<Rightarrow> []
                   | h # hs \<Rightarrow> h @ concat (map (\<lambda>y. [CHR 0x0A, CHR 0x0A] @ y) hs)))
       \<and> distinct (process_preambles (tcgr_host_preambles self @ tcgr_device_preambles self))
       \<and> set (process_preambles (tcgr_host_preambles self @ tcgr_device_preambles self))
           = snd ` set (tcgr_host_preambles self @ tcgr_device_preambles self)
       \<and> (\<exists>qs. process_preambles (tcgr_host_preambles self @ tcgr_device_preambles self)
                  = map snd qs
              \<and> sorted (map fst qs)
              \<and> set qs \<subseteq> set (tcgr_host_preambles self @ tcgr_device_preambles self)
              \<and> (\<forall>q \<in> set qs.
                    \<forall>q' \<in> set (tcgr_host_preambles self @ tcgr_device_preambles self).
                      snd q' = snd q \<longrightarrow> fst q \<le> fst q'))"
proof -
  have layout: "all_code str_ast self =
           Inr (concat (process_preambles (tcgr_host_preambles self @ tcgr_device_preambles self))
                @ [CHR 0x0A]
                @ (case map (\<lambda>dp. str_ast (prg_ast dp)) (tcgr_device_programs self) of
                     [] \<Rightarrow> []
                   | d # ds \<Rightarrow> d @ concat (map (\<lambda>y. [CHR 0x0A, CHR 0x0A] @ y) ds))
                @ [CHR 0x0A, CHR 0x0A]
                @ (case map (\<lambda>hp. str_ast (prg_ast (the (snd hp)))) (tcgr_host_programs self) of
                     [] \<Rightarrow> []
                   | h # hs \<Rightarrow> h @ concat (map (\<lambda>y. [CHR 0x0A, CHR 0x0A] @ y) hs)))"
    using assms
    by (simp add: all_code_def host_program_strs_present newline_def
        str_join_cases [of "[CHR 0x0A, CHR 0x0A]"])
  from layout
    process_preambles_rendering [of "tcgr_host_preambles self @ tcgr_device_preambles self"]
  show ?thesis by blast
qed

theorem all_code_layout_witness:
  "list_all (\<lambda>hp. snd hp \<noteq> None) (tcgr_host_programs two_program_result)
   \<and> all_code (\<lambda>ast. ast) two_program_result =
       Inr (''A;B;C;'' @ [CHR 0x0A] @ ''D1'' @ [CHR 0x0A, CHR 0x0A] @ ''D2''
            @ [CHR 0x0A, CHR 0x0A] @ ''H1'' @ [CHR 0x0A, CHR 0x0A] @ ''H2'')"
proof -
  have present: "\<forall>hp \<in> set (tcgr_host_programs two_program_result). snd hp \<noteq> None"
    by (simp add: two_program_result_def)
  have codes: "process_preambles
                 (tcgr_host_preambles two_program_result
                  @ tcgr_device_preambles two_program_result) = [''A;'', ''B;'', ''C;'']"
    by (simp add: process_preambles_def two_program_result_def)
  note layout = all_code_layout [OF present, of "\<lambda>ast. ast", THEN conjunct1]
  have "all_code (\<lambda>ast. ast) two_program_result =
       Inr (''A;B;C;'' @ [CHR 0x0A] @ ''D1'' @ [CHR 0x0A, CHR 0x0A] @ ''D2''
            @ [CHR 0x0A, CHR 0x0A] @ ''H1'' @ [CHR 0x0A, CHR 0x0A] @ ''H2'')"
    unfolding layout codes by (simp add: two_program_result_def)
  with present show ?thesis by (simp add: two_program_result_def)
qed

section \<open>Properties of the driver of a translation unit\<close>

subsection \<open>The cache\<close>

lemma generate_code_v2_hit:
  assumes "CACHING_ENABLED env" and "fst cw t_unit = Some result"
  shows "generate_code_v2 env t_unit cw = (Inr result, cw)"
  using assms by (simp add: generate_code_v2_def)

lemma generate_code_v2_miss:
  assumes "CACHING_ENABLED env" and "fst cw t_unit = None"
      and "generate_code_v2 env t_unit cw = (Inr r, cw')"
  shows "\<exists>cw1. generate_uncached env t_unit cw = (Inr r, cw1) \<and> snd cw' = snd cw1
               \<and> fst cw' = store_if_not_present (fst cw1) t_unit r"
  using assms
  by (auto simp: generate_code_v2_def Let_def split: if_splits prod.splits sum.splits)

lemma store_if_not_present_entries:
  "store_if_not_present c key val k = (if k = key \<and> c key = None then Some val else c k)"
  by (simp add: store_if_not_present_def split: option.splits)

text \<open>
  C6. With caching enabled, after \<^verbatim>\<open>generate_code_v2\<close> has returned a result for a
  translation unit, the cache has an entry for the unit, and a second call on the same
  unit returns that entry at once: it leaves the cache and the world as they are and
  does not depend on the collaborators, so that no stage runs again. On a hit the first
  call has returned the entry and changed nothing. On a miss the first call has run the
  stages and then stored with the semantics of store-if-not-present: the cache after
  the call is the cache as the stages left it, with the result added under the unit only
  if the unit had no entry by then; no entry is overwritten, not even one that was
  stored for the unit while the stages ran. When no entry for the unit was stored
  meanwhile, the second call returns the result of the first, hence the same
  \<^verbatim>\<open>all_code()\<close>.
\<close>

theorem second_call_returns_cached_result:
  assumes "CACHING_ENABLED env" and "CACHING_ENABLED env2"
      and "generate_code_v2 env t_unit cw = (Inr r, cw')"
  shows "(\<exists>stored. fst cw' t_unit = Some stored
            \<and> (\<forall>w2. generate_code_v2 env2 t_unit (fst cw', w2) = (Inr stored, (fst cw', w2))))
       \<and> (\<forall>old. fst cw t_unit = Some old \<longrightarrow> r = old \<and> cw' = cw)
       \<and> (fst cw t_unit = None \<longrightarrow>
            (\<exists>cw1. generate_uncached env t_unit cw = (Inr r, cw1) \<and> snd cw' = snd cw1
               \<and> (\<forall>key. fst cw' key =
                     (if key = t_unit \<and> fst cw1 t_unit = None then Some r else fst cw1 key))))
       \<and> ((\<forall>cw1. fst cw t_unit = None \<and> generate_uncached env t_unit cw = (Inr r, cw1) \<longrightarrow>
                  fst cw1 t_unit = None) \<longrightarrow>
            (\<forall>w2. generate_code_v2 env2 t_unit (fst cw', w2) = (Inr r, (fst cw', w2))
                \<and> (case fst (generate_code_v2 env2 t_unit (fst cw', w2)) of
                      Inl e \<Rightarrow> False
                    | Inr r2 \<Rightarrow> all_code str_ast r2 = all_code str_ast r)))"
proof -
  have hit: "r = old \<and> cw' = cw" if "fst cw t_unit = Some old" for old
    using generate_code_v2_hit [OF assms(1) that] assms(3) by simp
  have miss: "\<exists>cw1. generate_uncached env t_unit cw = (Inr r, cw1) \<and> snd cw' = snd cw1
               \<and> (\<forall>key. fst cw' key =
                     (if key = t_unit \<and> fst cw1 t_unit = None then Some r else fst cw1 key))"
    if "fst cw t_unit = None"
    using generate_code_v2_miss [OF assms(1) that assms(3)]
    by (auto simp: store_if_not_present_entries)
  have again: "generate_code_v2 env2 t_unit (fst cw', w2) = (Inr stored, (fst cw', w2))"
    if "fst cw' t_unit = Some stored" for stored w2
    using generate_code_v2_hit [OF assms(2), of "(fst cw', w2)" t_unit stored] that by simp
  have entry: "\<exists>stored. fst cw' t_unit = Some stored"
  proof (cases "fst cw t_unit")
    case None
    from miss [OF None] obtain cw1 where
      "generate_uncached env t_unit cw = (Inr r, cw1)"
      and entries: "\<forall>key. fst cw' key =
                  (if key = t_unit \<and> fst cw1 t_unit = None then Some r else fst cw1 key)"
      by blast
    from entries [rule_format, of t_unit] show ?thesis
      by (cases "fst cw1 t_unit") simp_all
  next
    case (Some old)
    with hit [OF Some] show ?thesis by simp
  qed
  have same: "fst cw' t_unit = Some r"
    if quiet: "\<forall>cw1. fst cw t_unit = None \<and> generate_uncached env t_unit cw = (Inr r, cw1) \<longrightarrow>
                  fst cw1 t_unit = None"
  proof (cases "fst cw t_unit")
    case None
    from miss [OF None] obtain cw1 where
      ran: "generate_uncached env t_unit cw = (Inr r, cw1)"
        and entries: "\<forall>key. fst cw' key =
                     (if key = t_unit \<and> fst cw1 t_unit = None then Some r else fst cw1 key)"
      by blast
    from quiet None ran have "fst cw1 t_unit = None" by blast
    with entries show ?thesis by simp
  next
    case (Some old)
    with hit [OF Some] show ?thesis by simp
  qed
  from entry again have first: "\<exists>stored. fst cw' t_unit = Some stored
            \<and> (\<forall>w2. generate_code_v2 env2 t_unit (fst cw', w2) = (Inr stored, (fst cw', w2)))"
    by blast
  have last: "\<forall>w2. generate_code_v2 env2 t_unit (fst cw', w2) = (Inr r, (fst cw', w2))
                \<and> (case fst (generate_code_v2 env2 t_unit (fst cw', w2)) of
                      Inl e \<Rightarrow> False
                    | Inr r2 \<Rightarrow> all_code str_ast r2 = all_code str_ast r)"
    if "\<forall>cw1. fst cw t_unit = None \<and> generate_uncached env t_unit cw = (Inr r, cw1) \<longrightarrow>
                  fst cw1 t_unit = None"
    using again [OF same [OF that]] by simp
  from first hit miss last show ?thesis by blast
qed

lemma example_upstream_stages:
  "list_all (\<lambda>(name, clbl). case clbl of CallableKernel k \<Rightarrow> knl_state k = LINEARIZED
                              | ScalarCallable n \<Rightarrow> True) (tu_callables_table t_unit) \<Longrightarrow>
   run_upstream_stages (example_env_on note checks) t_unit w
     = (Inr t_unit, note ''infer types'' w)"
  by (simp add: run_upstream_stages_def stage_below_def example_env_on_def example_tu_state_def)

lemma diverge_single_kernel_unit:
  "diverge_callee_entrypoints single_kernel_unit = single_kernel_unit"
  by (simp add: diverge_callee_entrypoints_def Let_def single_kernel_unit_def
      get_reachable_resolved_callable_ids_def renamed_def callees_of_def
      rename_resolved_functions_in_a_single_kernel_def example_kernel_def)

lemma assemble_single_kernel_unit:
  "assemble_t_unit (example_env_on note checks) single_kernel_unit w =
     (Inr single_kernel_result, note ''emit knl'' w)"
proof -
  have collection: "Collection (example_env_on note checks) builder asts = concat asts"
    for builder asts
    by (simp add: example_env_on_def)
  have preambles: "generate_preambles (example_env_on note checks) clbl target v = (Inr [], v)"
    for clbl target v
    by (simp add: example_env_on_def)
  show ?thesis
    by (simp add: assemble_t_unit_def single_kernel_unit_def kernel_func_ids_def
        tu_getitem_def example_kernel_named example_driver add_callee_fdecls_def
        single_kernel_result_def collection preambles)
qed

lemma generate_uncached_single_kernel_unit:
  "generate_uncached (example_env_on note checks) single_kernel_unit w =
           (case checks single_kernel_unit (note ''infer types'' w) of
              (Inl e, w') \<Rightarrow> (Inl e, w')
            | (Inr u, w') \<Rightarrow> (Inr single_kernel_result, note ''emit knl'' w'))"
proof -
  have checks: "pre_codegen_checks (example_env_on note checks) = checks"
    by (simp add: example_env_on_def)
  have "list_all (\<lambda>(name, clbl). case clbl of CallableKernel k \<Rightarrow> knl_state k = LINEARIZED
                              | ScalarCallable n \<Rightarrow> True) (tu_callables_table single_kernel_unit)"
    by (simp add: single_kernel_unit_def example_kernel_def)
  then show ?thesis
    by (simp add: generate_uncached_def example_upstream_stages diverge_single_kernel_unit
        checks assemble_single_kernel_unit split: prod.splits sum.splits)
qed

theorem second_call_returns_cached_result_witness:
  "CACHING_ENABLED cached_env
   \<and> generate_code_v2 cached_env single_kernel_unit (Map.empty, []) =
       (Inr single_kernel_result,
        (Map.empty(single_kernel_unit \<mapsto> single_kernel_result),
         [''infer types'', ''check'', ''emit knl'']))
   \<and> generate_uncached cached_env single_kernel_unit (Map.empty, []) =
       (Inr single_kernel_result, (Map.empty, [''infer types'', ''check'', ''emit knl'']))
   \<and> generate_code_v2 cached_env single_kernel_unit
        (Map.empty(single_kernel_unit \<mapsto> single_kernel_result),
         [''infer types'', ''check'', ''emit knl''])
      = (Inr single_kernel_result,
         (Map.empty(single_kernel_unit \<mapsto> single_kernel_result),
          [''infer types'', ''check'', ''emit knl'']))
   \<and> all_code (\<lambda>ast. ast) single_kernel_result
      = Inr ([CHR 0x0A] @ ''device knl'' @ [CHR 0x0A, CHR 0x0A] @ ''host knl'')
   \<and> CACHING_ENABLED racing_env
   \<and> generate_uncached racing_env single_kernel_unit (Map.empty, []) =
       (Inr single_kernel_result,
        (Map.empty(single_kernel_unit \<mapsto> other_result),
         [''infer types'', ''check'', ''emit knl'']))
   \<and> generate_code_v2 racing_env single_kernel_unit (Map.empty, []) =
       (Inr single_kernel_result,
        (Map.empty(single_kernel_unit \<mapsto> other_result),
         [''infer types'', ''check'', ''emit knl'']))
   \<and> generate_code_v2 racing_env single_kernel_unit
        (Map.empty(single_kernel_unit \<mapsto> other_result),
         [''infer types'', ''check'', ''emit knl''])
      = (Inr other_result,
         (Map.empty(single_kernel_unit \<mapsto> other_result),
          [''infer types'', ''check'', ''emit knl'']))
   \<and> other_result \<noteq> single_kernel_result"
proof -
  let ?cw = "(Map.empty, []) ::
               (string, string, unit, string) code_gen_cache \<times> string list"
  have enabled: "CACHING_ENABLED cached_env" "CACHING_ENABLED racing_env"
    and noabort: "\<not> ABORT_ON_CACHE_MISS cached_env" "\<not> ABORT_ON_CACHE_MISS racing_env"
    by (simp_all add: cached_env_def racing_env_def example_env_on_def)
  have ran_cached: "generate_uncached cached_env single_kernel_unit ?cw =
       (Inr single_kernel_result, (Map.empty, [''infer types'', ''check'', ''emit knl'']))"
    unfolding cached_env_def
    by (simp add: generate_uncached_single_kernel_unit note_beside_cache_def)
  have ran_racing: "generate_uncached racing_env single_kernel_unit ?cw =
       (Inr single_kernel_result,
        (Map.empty(single_kernel_unit \<mapsto> other_result),
         [''infer types'', ''check'', ''emit knl'']))"
    unfolding racing_env_def
    by (simp add: generate_uncached_single_kernel_unit note_beside_cache_def)
  have quiet: "generate_code_v2 cached_env single_kernel_unit ?cw =
       (Inr single_kernel_result,
        (Map.empty(single_kernel_unit \<mapsto> single_kernel_result),
         [''infer types'', ''check'', ''emit knl'']))"
    using enabled(1) noabort(1)
    by (simp add: generate_code_v2_def ran_cached store_if_not_present_def)
  have racing: "generate_code_v2 racing_env single_kernel_unit ?cw =
       (Inr single_kernel_result,
        (Map.empty(single_kernel_unit \<mapsto> other_result),
         [''infer types'', ''check'', ''emit knl'']))"
    using enabled(2) noabort(2)
    by (simp add: generate_code_v2_def ran_racing store_if_not_present_def)
  have differ: "other_result \<noteq> single_kernel_result"
    by (simp add: other_result_def single_kernel_result_def)
  have rendered: "all_code (\<lambda>ast. ast) single_kernel_result
      = Inr ([CHR 0x0A] @ ''device knl'' @ [CHR 0x0A, CHR 0x0A] @ ''host knl'')"
    by (simp add: all_code_def single_kernel_result_def process_preambles_def newline_def)
  have untouched: "\<forall>cw1. fst ?cw single_kernel_unit = None \<and>
             generate_uncached cached_env single_kernel_unit ?cw = (Inr single_kernel_result, cw1)
             \<longrightarrow> fst cw1 single_kernel_unit = None"
    by (simp add: ran_cached)
  note same = second_call_returns_cached_result [OF enabled(1) enabled(1) quiet,
      THEN conjunct2, THEN conjunct2, THEN conjunct2, THEN mp, OF untouched,
      THEN spec, THEN conjunct1]
  from same [of "[''infer types'', ''check'', ''emit knl'']"]
  have again: "generate_code_v2 cached_env single_kernel_unit
        (Map.empty(single_kernel_unit \<mapsto> single_kernel_result),
         [''infer types'', ''check'', ''emit knl''])
      = (Inr single_kernel_result,
         (Map.empty(single_kernel_unit \<mapsto> single_kernel_result),
          [''infer types'', ''check'', ''emit knl'']))"
    by simp
  from second_call_returns_cached_result [OF enabled(2) enabled(2) racing]
  have other: "generate_code_v2 racing_env single_kernel_unit
        (Map.empty(single_kernel_unit \<mapsto> other_result),
         [''infer types'', ''check'', ''emit knl''])
      = (Inr other_result,
         (Map.empty(single_kernel_unit \<mapsto> other_result),
          [''infer types'', ''check'', ''emit knl'']))"
    by auto
  from enabled quiet ran_cached again rendered ran_racing racing other differ show ?thesis
    by simp
qed

subsection \<open>Past the cache lookup\<close>

lemma generate_code_v2_past_lookup:
  assumes "CACHING_ENABLED env \<longrightarrow> fst cw t_unit = None \<and> \<not> ABORT_ON_CACHE_MISS env"
  shows "generate_code_v2 env t_unit cw =
           (case generate_uncached env t_unit cw of
              (Inl e, cw') \<Rightarrow> (Inl e, cw')
            | (Inr cgr, cw') \<Rightarrow>
                (Inr cgr,
                 (if CACHING_ENABLED env then store_if_not_present (fst cw') t_unit cgr
                  else fst cw',
                  snd cw')))"
  using assms by (auto simp: generate_code_v2_def Let_def)

lemma generate_code_v2_result:
  assumes "CACHING_ENABLED env \<longrightarrow> fst cw t_unit = None \<and> \<not> ABORT_ON_CACHE_MISS env"
      and "generate_code_v2 env t_unit cw = (Inr r, cw')"
  shows "\<exists>t1 cw1 u cw2 cw3.
           run_upstream_stages env t_unit cw = (Inr t1, cw1)
         \<and> pre_codegen_checks env (diverge_callee_entrypoints t1) cw1 = (Inr u, cw2)
         \<and> assemble_t_unit env (diverge_callee_entrypoints t1) cw2 = (Inr r, cw3)"
proof -
  from assms(2) obtain cw3 where "generate_uncached env t_unit cw = (Inr r, cw3)"
    by (auto simp: generate_code_v2_past_lookup [OF assms(1)] split: prod.splits sum.splits)
  then show ?thesis
    by (auto simp: generate_uncached_def Let_def split: prod.splits sum.splits)
qed

lemma generate_code_v2_error:
  assumes "CACHING_ENABLED env \<longrightarrow> fst cw t_unit = None \<and> \<not> ABORT_ON_CACHE_MISS env"
      and "run_upstream_stages env t_unit cw = (Inr t1, cw1)"
      and "pre_codegen_checks env (diverge_callee_entrypoints t1) cw1 = (Inr u, cw2)"
      and "assemble_t_unit env (diverge_callee_entrypoints t1) cw2 = (Inl e, cw3)"
  shows "generate_code_v2 env t_unit cw = (Inl e, cw3)"
  using assms(2-4)
  by (simp add: generate_code_v2_past_lookup [OF assms(1)] generate_uncached_def Let_def)

subsection \<open>The order of the kernels\<close>

lemma kernel_func_ids_sorted: "sorted (kernel_func_ids table)"
  by (simp add: kernel_func_ids_def)

lemma kernel_func_ids_set:
  "set (kernel_func_ids table) = {key. \<exists>k. (key, CallableKernel k) \<in> set table}"
proof -
  have "is_CallableKernel val = (\<exists>k. val = CallableKernel k)" for val :: "('a, 'b, 'c) InKernelCallable"
    by (cases val) auto
  then show ?thesis
    by (force simp: kernel_func_ids_def)
qed

lemma kernel_func_ids_permuted:
  assumes "mset table' = mset table"
  shows "kernel_func_ids table' = kernel_func_ids table"
proof -
  let ?ids = "\<lambda>t. map fst (filter (\<lambda>(key, val). is_CallableKernel val) t)"
  have "mset (?ids table') = mset (?ids table)"
    by (simp only: mset_map mset_filter assms)
  then have "mset (sort (?ids table')) = mset (?ids table)"
    by simp
  then have "sort (?ids table) = sort (?ids table')"
    by (rule properties_for_sort) simp
  then show ?thesis by (simp add: kernel_func_ids_def)
qed

lemma collect_programs_success:
  "collect_programs fd driver t ids (host, dev, pre, fds) w
     = (Inr (host', dev', pre', fds'), w') \<Longrightarrow>
   \<exists>cgrs. drive_in_order driver t ids w = (Inr cgrs, w')
     \<and> length cgrs = length ids
     \<and> dev' = dev @ concat (map cgr_device_programs cgrs)
     \<and> pre' = pre @ concat (map cgr_device_preambles cgrs)
     \<and> fds' = fds @ map (\<lambda>c. fd (prg_ast (hd (cgr_device_programs c))))
                      (callee_results t ids cgrs)
     \<and> (\<forall>c \<in> set (callee_results t ids cgrs). length (cgr_device_programs c) = 1)"
proof (induction ids arbitrary: host dev pre fds w)
  case Nil
  then show ?case by (simp add: callee_results_def)
next
  case (Cons func_id ids)
  from Cons.prems obtain knl where knl: "tu_getitem t func_id = Inr knl"
    by (cases "tu_getitem t func_id") auto
  from Cons.prems knl obtain cgr w1
    where cgr: "driver knl (tu_callables_table t) (tu_target t)
                  (func_id \<in> tu_entrypoints t) w = (Inr cgr, w1)"
    by (auto split: prod.splits sum.splits)
  show ?case
  proof (cases "func_id \<in> tu_entrypoints t")
    case True
    with Cons.prems knl cgr
    have "collect_programs fd driver t ids
            (AList.update func_id (cgr_host_program cgr) host,
             dev @ cgr_device_programs cgr, pre @ cgr_device_preambles cgr, fds) w1
          = (Inr (host', dev', pre', fds'), w')"
      by simp
    from Cons.IH [OF this] obtain cgrs where
      "drive_in_order driver t ids w1 = (Inr cgrs, w')"
      "length cgrs = length ids"
      "dev' = (dev @ cgr_device_programs cgr) @ concat (map cgr_device_programs cgrs)"
      "pre' = (pre @ cgr_device_preambles cgr) @ concat (map cgr_device_preambles cgrs)"
      "fds' = fds @ map (\<lambda>c. fd (prg_ast (hd (cgr_device_programs c))))
                      (callee_results t ids cgrs)"
      "\<forall>c \<in> set (callee_results t ids cgrs). length (cgr_device_programs c) = 1"
      by blast
    with knl cgr True show ?thesis
      by (intro exI [of _ "cgr # cgrs"]) (simp add: callee_results_def)
  next
    case False
    with Cons.prems knl cgr obtain dp where dp: "cgr_device_programs cgr = [dp]"
      by (auto split: list.splits)
    with Cons.prems knl cgr False
    have "collect_programs fd driver t ids
            (host, dev @ cgr_device_programs cgr, pre @ cgr_device_preambles cgr,
             fds @ [fd (prg_ast dp)]) w1
          = (Inr (host', dev', pre', fds'), w')"
      by simp
    from Cons.IH [OF this] obtain cgrs where
      "drive_in_order driver t ids w1 = (Inr cgrs, w')"
      "length cgrs = length ids"
      "dev' = (dev @ cgr_device_programs cgr) @ concat (map cgr_device_programs cgrs)"
      "pre' = (pre @ cgr_device_preambles cgr) @ concat (map cgr_device_preambles cgrs)"
      "fds' = (fds @ [fd (prg_ast dp)]) @ map (\<lambda>c. fd (prg_ast (hd (cgr_device_programs c))))
                      (callee_results t ids cgrs)"
      "\<forall>c \<in> set (callee_results t ids cgrs). length (cgr_device_programs c) = 1"
      by blast
    with knl cgr False dp show ?thesis
      by (intro exI [of _ "cgr # cgrs"]) (simp add: callee_results_def)
  qed
qed

lemma collect_programs_assertion:
  assumes "tu_getitem t func_id = Inr knl"
      and "driver knl (tu_callables_table t) (tu_target t) (func_id \<in> tu_entrypoints t) w
             = (Inr cgr, w')"
      and "func_id \<notin> tu_entrypoints t"
      and "length (cgr_device_programs cgr) \<noteq> 1"
  shows "collect_programs fd driver t (func_id # ids) acc w = (Inl AssertionError, w')"
proof -
  obtain host dev pre fds where acc: "acc = (host, dev, pre, fds)"
    by (cases acc)
  from assms show ?thesis
    by (auto simp: acc split: list.splits)
qed

lemma collect_programs_prefix:
  "drive_in_order driver t ids1 w = (Inr cgrs, w1) \<Longrightarrow>
   \<forall>c \<in> set (callee_results t ids1 cgrs). length (cgr_device_programs c) = 1 \<Longrightarrow>
   \<exists>acc'. collect_programs fd driver t (ids1 @ ids2) acc w
            = collect_programs fd driver t ids2 acc' w1"
proof (induction ids1 arbitrary: acc w cgrs)
  case Nil
  from Nil.prems(1) have "w1 = w" by simp
  then show ?case by (intro exI [of _ acc]) simp
next
  case (Cons func_id ids)
  obtain host dev pre fds where acc: "acc = (host, dev, pre, fds)"
    by (cases acc)
  from Cons.prems(1) obtain knl where knl: "tu_getitem t func_id = Inr knl"
    by (cases "tu_getitem t func_id") auto
  from Cons.prems(1) knl obtain cgr w2
    where cgr: "driver knl (tu_callables_table t) (tu_target t)
                  (func_id \<in> tu_entrypoints t) w = (Inr cgr, w2)"
    by (auto split: prod.splits sum.splits)
  from Cons.prems(1) knl cgr obtain cgrs' where
    rest: "drive_in_order driver t ids w2 = (Inr cgrs', w1)" and cgrs: "cgrs = cgr # cgrs'"
    by (auto split: prod.splits sum.splits)
  from Cons.prems(2) have
    one: "\<forall>c \<in> set (callee_results t ids cgrs'). length (cgr_device_programs c) = 1"
    by (auto simp: callee_results_def cgrs)
  show ?case
  proof (cases "func_id \<in> tu_entrypoints t")
    case True
    from Cons.IH [OF rest one] obtain acc' where
      "collect_programs fd driver t (ids @ ids2)
         (AList.update func_id (cgr_host_program cgr) host,
          dev @ cgr_device_programs cgr, pre @ cgr_device_preambles cgr, fds) w2
       = collect_programs fd driver t ids2 acc' w1"
      by blast
    with knl cgr True show ?thesis
      by (intro exI [of _ acc']) (simp add: acc)
  next
    case False
    with Cons.prems(2) have "length (cgr_device_programs cgr) = 1"
      by (simp add: callee_results_def cgrs)
    then obtain dp where dp: "cgr_device_programs cgr = [dp]"
      by (cases "cgr_device_programs cgr") auto
    from Cons.IH [OF rest one] obtain acc' where
      "collect_programs fd driver t (ids @ ids2)
         (host, dev @ cgr_device_programs cgr, pre @ cgr_device_preambles cgr,
          fds @ [fd (prg_ast dp)]) w2
       = collect_programs fd driver t ids2 acc' w1"
      by blast
    with knl cgr False dp show ?thesis
      by (intro exI [of _ acc']) (simp add: acc)
  qed
qed

lemma assemble_t_unit_success:
  assumes "assemble_t_unit env t w = (Inr r, w')"
  shows "\<exists>cgrs w1 first others.
           drive_in_order (generate_code_for_a_single_kernel env) t
             (kernel_func_ids (tu_callables_table t)) w = (Inr cgrs, w1)
         \<and> length cgrs = length (kernel_func_ids (tu_callables_table t))
         \<and> (\<forall>c \<in> set (callee_results t (kernel_func_ids (tu_callables_table t)) cgrs).
               length (cgr_device_programs c) = 1)
         \<and> concat (map cgr_device_programs cgrs) = first # others
         \<and> tcgr_device_programs r =
               first\<lparr>prg_ast :=
                        Collection env (get_device_ast_builder (tu_target t))
                          (map (\<lambda>c. fdecl env (prg_ast (hd (cgr_device_programs c))))
                             (callee_results t (kernel_func_ids (tu_callables_table t)) cgrs)
                           @ [prg_ast first])\<rparr>
               # others"
proof -
  let ?ids = "kernel_func_ids (tu_callables_table t)"
  from assms obtain host dev pre fds w1 where
    collected: "collect_programs (fdecl env) (generate_code_for_a_single_kernel env) t ?ids
                  ([], [], [], []) w = (Inr (host, dev, pre, fds), w1)"
    by (auto simp: assemble_t_unit_def split: prod.splits sum.splits)
  from assms collected obtain device_programs' where
    spliced: "add_callee_fdecls env t fds dev = Inr device_programs'"
      and result: "tcgr_device_programs r = device_programs'"
    by (auto simp: assemble_t_unit_def split: prod.splits sum.splits)
  from collect_programs_success [OF collected] obtain cgrs where
    driven: "drive_in_order (generate_code_for_a_single_kernel env) t ?ids w = (Inr cgrs, w1)"
      and len: "length cgrs = length ?ids"
      and dev: "dev = concat (map cgr_device_programs cgrs)"
      and fds: "fds = map (\<lambda>c. fdecl env (prg_ast (hd (cgr_device_programs c))))
                        (callee_results t ?ids cgrs)"
      and one: "\<forall>c \<in> set (callee_results t ?ids cgrs). length (cgr_device_programs c) = 1"
    by auto
  from spliced obtain first others where
    split: "dev = first # others"
      and spliced': "device_programs' =
               first\<lparr>prg_ast := Collection env (get_device_ast_builder (tu_target t))
                                   (fds @ [prg_ast first])\<rparr> # others"
    by (auto simp: add_callee_fdecls_def split: list.splits)
  from driven len one split spliced' result show ?thesis
    unfolding dev fds by blast
qed

lemma assemble_t_unit_assertion:
  assumes ids: "kernel_func_ids (tu_callables_table t) = ids1 @ func_id # ids2"
      and driven: "drive_in_order (generate_code_for_a_single_kernel env) t ids1 w
                     = (Inr cgrs, w1)"
      and one: "\<forall>c \<in> set (callee_results t ids1 cgrs). length (cgr_device_programs c) = 1"
      and knl: "tu_getitem t func_id = Inr knl"
      and cgr: "generate_code_for_a_single_kernel env knl (tu_callables_table t) (tu_target t)
                  (func_id \<in> tu_entrypoints t) w1 = (Inr cgr, w2)"
      and callee: "func_id \<notin> tu_entrypoints t"
      and other: "length (cgr_device_programs cgr) \<noteq> 1"
  shows "assemble_t_unit env t w = (Inl AssertionError, w2)"
proof -
  from collect_programs_prefix [OF driven one] obtain acc' where
    "collect_programs (fdecl env) (generate_code_for_a_single_kernel env) t
       (ids1 @ func_id # ids2) ([], [], [], []) w
     = collect_programs (fdecl env) (generate_code_for_a_single_kernel env) t
         (func_id # ids2) acc' w1"
    by blast
  also have "\<dots> = (Inl AssertionError, w2)"
    by (rule collect_programs_assertion
        [where driver = "generate_code_for_a_single_kernel env", OF knl cgr callee other])
  finally show ?thesis
    by (simp add: assemble_t_unit_def ids)
qed

text \<open>
  C7. Past the cache lookup, \<^verbatim>\<open>generate_code_v2\<close> runs the single-kernel driver on the
  kernels of the unit that the upstream stages and the divergence of the callee
  entrypoints give, in the ascending order of their ids. Whenever the call returns a
  result, the driver has been called once for each id of a kernel of that table, from
  the least id to the greatest, on the world that the checks left; every callable that
  is no entrypoint has given exactly one device program; and the first device program
  of the result is the collection of the declarations of those callees, in the order of
  the ids, followed by its own AST. When the loop has come through the ids before some
  id with exactly one device program for every callee, and the driver gives other than
  one device program for that id, which is no entrypoint, the call fails with
  \<^verbatim>\<open>AssertionError\<close> right after that call of the driver. The list of the ids is
  sorted, holds exactly the ids of the kernels of the table, and is the same for every
  order in which a table holds its entries.
\<close>

theorem kernels_are_driven_in_sorted_order:
  assumes "CACHING_ENABLED env \<longrightarrow> fst cw t_unit = None \<and> \<not> ABORT_ON_CACHE_MISS env"
  shows "(\<forall>r cw'. generate_code_v2 env t_unit cw = (Inr r, cw') \<longrightarrow>
            (\<exists>t1 cw1 u cw2 cgrs cw3 first others.
               run_upstream_stages env t_unit cw = (Inr t1, cw1)
             \<and> pre_codegen_checks env (diverge_callee_entrypoints t1) cw1 = (Inr u, cw2)
             \<and> drive_in_order (generate_code_for_a_single_kernel env)
                 (diverge_callee_entrypoints t1)
                 (kernel_func_ids (tu_callables_table (diverge_callee_entrypoints t1))) cw2
                 = (Inr cgrs, cw3)
             \<and> length cgrs
                 = length (kernel_func_ids (tu_callables_table (diverge_callee_entrypoints t1)))
             \<and> (\<forall>c \<in> set (callee_results (diverge_callee_entrypoints t1)
                              (kernel_func_ids
                                 (tu_callables_table (diverge_callee_entrypoints t1))) cgrs).
                   length (cgr_device_programs c) = 1)
             \<and> concat (map cgr_device_programs cgrs) = first # others
             \<and> tcgr_device_programs r =
                 first\<lparr>prg_ast :=
                          Collection env
                            (get_device_ast_builder (tu_target (diverge_callee_entrypoints t1)))
                            (map (\<lambda>c. fdecl env (prg_ast (hd (cgr_device_programs c))))
                               (callee_results (diverge_callee_entrypoints t1)
                                  (kernel_func_ids
                                     (tu_callables_table (diverge_callee_entrypoints t1)))
                                  cgrs)
                             @ [prg_ast first])\<rparr>
                 # others))
       \<and> (\<forall>t1 cw1 u cw2 ids1 func_id ids2 cgrs cw3 knl cgr cw4.
            run_upstream_stages env t_unit cw = (Inr t1, cw1) \<and>
            pre_codegen_checks env (diverge_callee_entrypoints t1) cw1 = (Inr u, cw2) \<and>
            kernel_func_ids (tu_callables_table (diverge_callee_entrypoints t1))
              = ids1 @ func_id # ids2 \<and>
            drive_in_order (generate_code_for_a_single_kernel env)
              (diverge_callee_entrypoints t1) ids1 cw2 = (Inr cgrs, cw3) \<and>
            (\<forall>c \<in> set (callee_results (diverge_callee_entrypoints t1) ids1 cgrs).
               length (cgr_device_programs c) = 1) \<and>
            tu_getitem (diverge_callee_entrypoints t1) func_id = Inr knl \<and>
            generate_code_for_a_single_kernel env knl
              (tu_callables_table (diverge_callee_entrypoints t1))
              (tu_target (diverge_callee_entrypoints t1))
              (func_id \<in> tu_entrypoints (diverge_callee_entrypoints t1)) cw3 = (Inr cgr, cw4) \<and>
            func_id \<notin> tu_entrypoints (diverge_callee_entrypoints t1) \<and>
            length (cgr_device_programs cgr) \<noteq> 1 \<longrightarrow>
            generate_code_v2 env t_unit cw = (Inl AssertionError, cw4))
       \<and> (\<forall>table :: ('b, 'pg, 'o) CallablesTable.
            sorted (kernel_func_ids table)
            \<and> set (kernel_func_ids table) = {key. \<exists>k. (key, CallableKernel k) \<in> set table}
            \<and> (\<forall>table'. mset table' = mset table \<longrightarrow>
                  kernel_func_ids table' = kernel_func_ids table))"
proof -
  have driven: "\<exists>t1 cw1 u cw2 cgrs cw3 first others.
               run_upstream_stages env t_unit cw = (Inr t1, cw1)
             \<and> pre_codegen_checks env (diverge_callee_entrypoints t1) cw1 = (Inr u, cw2)
             \<and> drive_in_order (generate_code_for_a_single_kernel env)
                 (diverge_callee_entrypoints t1)
                 (kernel_func_ids (tu_callables_table (diverge_callee_entrypoints t1))) cw2
                 = (Inr cgrs, cw3)
             \<and> length cgrs
                 = length (kernel_func_ids (tu_callables_table (diverge_callee_entrypoints t1)))
             \<and> (\<forall>c \<in> set (callee_results (diverge_callee_entrypoints t1)
                              (kernel_func_ids
                                 (tu_callables_table (diverge_callee_entrypoints t1))) cgrs).
                   length (cgr_device_programs c) = 1)
             \<and> concat (map cgr_device_programs cgrs) = first # others
             \<and> tcgr_device_programs r =
                 first\<lparr>prg_ast :=
                          Collection env
                            (get_device_ast_builder (tu_target (diverge_callee_entrypoints t1)))
                            (map (\<lambda>c. fdecl env (prg_ast (hd (cgr_device_programs c))))
                               (callee_results (diverge_callee_entrypoints t1)
                                  (kernel_func_ids
                                     (tu_callables_table (diverge_callee_entrypoints t1)))
                                  cgrs)
                             @ [prg_ast first])\<rparr>
                 # others"
    if "generate_code_v2 env t_unit cw = (Inr r, cw')" for r cw'
  proof -
    from generate_code_v2_result [OF assms that] obtain t1 cw1 u cw2 cw5 where
      upstream: "run_upstream_stages env t_unit cw = (Inr t1, cw1)"
        and checks: "pre_codegen_checks env (diverge_callee_entrypoints t1) cw1 = (Inr u, cw2)"
        and assembly: "assemble_t_unit env (diverge_callee_entrypoints t1) cw2 = (Inr r, cw5)"
      by blast
    from assemble_t_unit_success [OF assembly] upstream checks show ?thesis
      by blast
  qed
  have fails: "generate_code_v2 env t_unit cw = (Inl AssertionError, cw4)"
    if "run_upstream_stages env t_unit cw = (Inr t1, cw1)"
      and "pre_codegen_checks env (diverge_callee_entrypoints t1) cw1 = (Inr u, cw2)"
      and "kernel_func_ids (tu_callables_table (diverge_callee_entrypoints t1))
              = ids1 @ func_id # ids2"
      and "drive_in_order (generate_code_for_a_single_kernel env)
              (diverge_callee_entrypoints t1) ids1 cw2 = (Inr cgrs, cw3)"
      and "\<forall>c \<in> set (callee_results (diverge_callee_entrypoints t1) ids1 cgrs).
               length (cgr_device_programs c) = 1"
      and "tu_getitem (diverge_callee_entrypoints t1) func_id = Inr knl"
      and "generate_code_for_a_single_kernel env knl
              (tu_callables_table (diverge_callee_entrypoints t1))
              (tu_target (diverge_callee_entrypoints t1))
              (func_id \<in> tu_entrypoints (diverge_callee_entrypoints t1)) cw3 = (Inr cgr, cw4)"
      and "func_id \<notin> tu_entrypoints (diverge_callee_entrypoints t1)"
      and "length (cgr_device_programs cgr) \<noteq> 1"
    for t1 cw1 u cw2 ids1 func_id ids2 cgrs cw3 knl cgr cw4
    using assms that(1,2) assemble_t_unit_assertion [OF that(3-9)]
    by (rule generate_code_v2_error)
  have ids: "sorted (kernel_func_ids table)
            \<and> set (kernel_func_ids table) = {key. \<exists>k. (key, CallableKernel k) \<in> set table}
            \<and> (\<forall>table'. mset table' = mset table \<longrightarrow>
                  kernel_func_ids table' = kernel_func_ids table)"
    for table :: "('b, 'pg, 'o) CallablesTable"
    using kernel_func_ids_sorted [of table] kernel_func_ids_set [of table]
      kernel_func_ids_permuted [of _ table]
    by blast
  from driven fails ids show ?thesis
    by (intro conjI allI impI) blast+
qed

lemma three_callees_ids:
  "kernel_func_ids (tu_callables_table three_callees_unit) = [''a'', ''b'', ''c'']"
  by (simp add: kernel_func_ids_def three_callees_unit_def)

lemma three_callees_reordered_ids:
  "kernel_func_ids three_callees_reordered = [''a'', ''b'', ''c'']"
  by (simp add: kernel_func_ids_def three_callees_reordered_def)

lemma diverge_three_callees_unit:
  "diverge_callee_entrypoints three_callees_unit = three_callees_unit"
  "diverge_callee_entrypoints (three_callees_unit\<lparr>tu_callables_table := three_callees_reordered\<rparr>)
     = three_callees_unit\<lparr>tu_callables_table := three_callees_reordered\<rparr>"
  by (simp_all add: diverge_callee_entrypoints_def Let_def three_callees_unit_def
      three_callees_reordered_def get_reachable_resolved_callable_ids_def renamed_def
      callees_of_def rename_resolved_functions_in_a_single_kernel_def kernel_named_def
      example_kernel_def)

lemma three_callees_linearized:
  "list_all (\<lambda>(name, clbl). case clbl of CallableKernel k \<Rightarrow> knl_state k = LINEARIZED
                              | ScalarCallable n \<Rightarrow> True)
     (tu_callables_table three_callees_unit)"
  "list_all (\<lambda>(name, clbl). case clbl of CallableKernel k \<Rightarrow> knl_state k = LINEARIZED
                              | ScalarCallable n \<Rightarrow> True)
     (tu_callables_table (three_callees_unit\<lparr>tu_callables_table := three_callees_reordered\<rparr>))"
  by (simp_all add: three_callees_unit_def three_callees_reordered_def kernel_named_def
      example_kernel_def)

lemma three_callees_assembled:
  "assemble_t_unit (example_env_on note checks) three_callees_unit w =
     (Inr three_callees_result, note ''emit c'' (note ''emit b'' (note ''emit a'' w)))"
  "assemble_t_unit (example_env_on note checks)
     (three_callees_unit\<lparr>tu_callables_table := three_callees_reordered\<rparr>) w =
     (Inr three_callees_result, note ''emit c'' (note ''emit b'' (note ''emit a'' w)))"
proof -
  have collection: "Collection (example_env_on note checks) builder asts = concat asts"
    for builder asts
    by (simp add: example_env_on_def)
  have preambles: "generate_preambles (example_env_on note checks) clbl target v = (Inr [], v)"
    for clbl target v
    by (simp add: example_env_on_def)
  have decl: "fdecl (example_env_on note checks) ast = ''declare '' @ ast @ ''; ''" for ast
    by (simp add: example_env_on_def)
  have table: "tu_callables_table three_callees_unit =
        [(''b'', CallableKernel (kernel_named ''b'' [])),
         (''a'', CallableKernel (kernel_named ''a'' [])),
         (''c'', CallableKernel (kernel_named ''c'' []))]"
    and target: "tu_target three_callees_unit = example_target"
    and entrypoints: "tu_entrypoints three_callees_unit = {}"
    by (simp_all add: three_callees_unit_def)
  show "assemble_t_unit (example_env_on note checks) three_callees_unit w =
     (Inr three_callees_result, note ''emit c'' (note ''emit b'' (note ''emit a'' w)))"
    unfolding assemble_t_unit_def three_callees_ids
    by (simp add: tu_getitem_def table target entrypoints example_driver
        add_callee_fdecls_def collection preambles decl three_callees_result_def)
  show "assemble_t_unit (example_env_on note checks)
     (three_callees_unit\<lparr>tu_callables_table := three_callees_reordered\<rparr>) w =
     (Inr three_callees_result, note ''emit c'' (note ''emit b'' (note ''emit a'' w)))"
    unfolding assemble_t_unit_def
    by (simp add: three_callees_reordered_ids)
       (simp add: tu_getitem_def three_callees_reordered_def target entrypoints example_driver
          add_callee_fdecls_def collection preambles decl three_callees_result_def)
qed

lemma generate_uncached_three_callees:
  "generate_uncached (example_env_on note checks) three_callees_unit w =
     (case checks three_callees_unit (note ''infer types'' w) of
        (Inl e, w') \<Rightarrow> (Inl e, w')
      | (Inr u, w') \<Rightarrow>
          (Inr three_callees_result, note ''emit c'' (note ''emit b'' (note ''emit a'' w'))))"
  "generate_uncached (example_env_on note checks)
     (three_callees_unit\<lparr>tu_callables_table := three_callees_reordered\<rparr>) w =
     (case checks (three_callees_unit\<lparr>tu_callables_table := three_callees_reordered\<rparr>)
             (note ''infer types'' w) of
        (Inl e, w') \<Rightarrow> (Inl e, w')
      | (Inr u, w') \<Rightarrow>
          (Inr three_callees_result, note ''emit c'' (note ''emit b'' (note ''emit a'' w'))))"
proof -
  have checks: "pre_codegen_checks (example_env_on note checks) = checks"
    by (simp add: example_env_on_def)
  show "generate_uncached (example_env_on note checks) three_callees_unit w =
     (case checks three_callees_unit (note ''infer types'' w) of
        (Inl e, w') \<Rightarrow> (Inl e, w')
      | (Inr u, w') \<Rightarrow>
          (Inr three_callees_result, note ''emit c'' (note ''emit b'' (note ''emit a'' w'))))"
    by (simp add: generate_uncached_def example_upstream_stages [OF three_callees_linearized(1)]
        diverge_three_callees_unit checks three_callees_assembled
        split: prod.splits sum.splits)
  show "generate_uncached (example_env_on note checks)
     (three_callees_unit\<lparr>tu_callables_table := three_callees_reordered\<rparr>) w =
     (case checks (three_callees_unit\<lparr>tu_callables_table := three_callees_reordered\<rparr>)
             (note ''infer types'' w) of
        (Inl e, w') \<Rightarrow> (Inl e, w')
      | (Inr u, w') \<Rightarrow>
          (Inr three_callees_result, note ''emit c'' (note ''emit b'' (note ''emit a'' w'))))"
    by (simp add: generate_uncached_def example_upstream_stages [OF three_callees_linearized(2)]
        diverge_three_callees_unit checks three_callees_assembled
        split: prod.splits sum.splits)
qed

lemma splitting_env_stages:
  "run_upstream_stages splitting_env = run_upstream_stages cached_env"
  "pre_codegen_checks splitting_env = pre_codegen_checks cached_env"
  by (simp_all add: fun_eq_iff run_upstream_stages_def stage_below_def splitting_env_def
      split: prod.splits sum.splits)

lemma splitting_env_flags:
  "CACHING_ENABLED splitting_env" "\<not> ABORT_ON_CACHE_MISS splitting_env"
  by (simp_all add: splitting_env_def cached_env_def example_env_on_def)

lemma splitting_driver:
  "generate_code_for_a_single_kernel splitting_env (kernel_named ''a'' [])
     table example_target False cw =
   (Inr \<lparr>cgr_host_program = None,
         cgr_device_programs =
           [\<lparr>prg_name = ''a'', prg_is_device_program = True, prg_ast = ''device a''\<rparr>],
         cgr_implemented_domains = [],
         cgr_host_preambles = [],
         cgr_device_preambles = []\<rparr>,
    note_beside_cache ''emit a'' cw)"
  "generate_code_for_a_single_kernel splitting_env (kernel_named ''b'' [])
     table example_target False cw =
   (Inr \<lparr>cgr_host_program = None,
         cgr_device_programs =
           [\<lparr>prg_name = ''b'', prg_is_device_program = True, prg_ast = ''device b, part 1''\<rparr>,
            \<lparr>prg_name = ''b_0'', prg_is_device_program = True,
             prg_ast = ''device b, part 2''\<rparr>],
         cgr_implemented_domains = [],
         cgr_host_preambles = [],
         cgr_device_preambles = []\<rparr>,
    note_beside_cache ''emit b'' cw)"
  by (simp_all add: generate_code_for_a_single_kernel_def kernel_named_def example_kernel_def
      splitting_env_def cached_env_def example_env_on_def split_emission_def
      example_emission_def initial_codegen_state_def handle_preambles_def
      example_target_def example_kernel_target_def)

theorem kernels_are_driven_in_sorted_order_witness:
  "CACHING_ENABLED cached_env \<and> \<not> ABORT_ON_CACHE_MISS cached_env
   \<and> CACHING_ENABLED splitting_env \<and> \<not> ABORT_ON_CACHE_MISS splitting_env
   \<and> kernel_func_ids (tu_callables_table three_callees_unit) = [''a'', ''b'', ''c'']
   \<and> mset three_callees_reordered = mset (tu_callables_table three_callees_unit)
   \<and> kernel_func_ids three_callees_reordered = [''a'', ''b'', ''c'']
   \<and> generate_code_v2 cached_env three_callees_unit (Map.empty, []) =
       (Inr three_callees_result,
        (Map.empty(three_callees_unit \<mapsto> three_callees_result),
         [''infer types'', ''check'', ''emit a'', ''emit b'', ''emit c'']))
   \<and> generate_code_v2 cached_env
        (three_callees_unit\<lparr>tu_callables_table := three_callees_reordered\<rparr>) (Map.empty, []) =
       (Inr three_callees_result,
        (Map.empty(three_callees_unit\<lparr>tu_callables_table := three_callees_reordered\<rparr>
                     \<mapsto> three_callees_result),
         [''infer types'', ''check'', ''emit a'', ''emit b'', ''emit c'']))
   \<and> prg_ast (hd (tcgr_device_programs three_callees_result))
       = ''declare device a; declare device b; declare device c; device a''
   \<and> generate_code_v2 splitting_env three_callees_unit (Map.empty, []) =
       (Inl AssertionError, (Map.empty, [''infer types'', ''check'', ''emit a'', ''emit b'']))"
proof -
  let ?cw = "(Map.empty, []) ::
               (string, string, unit, string) code_gen_cache \<times> string list"
  let ?reordered = "three_callees_unit\<lparr>tu_callables_table := three_callees_reordered\<rparr>"
  have flags: "CACHING_ENABLED cached_env" "\<not> ABORT_ON_CACHE_MISS cached_env"
    by (simp_all add: cached_env_def example_env_on_def)
  have miss: "CACHING_ENABLED splitting_env \<longrightarrow>
                fst ?cw three_callees_unit = None \<and> \<not> ABORT_ON_CACHE_MISS splitting_env"
    by (simp add: splitting_env_flags)
  have permuted: "mset three_callees_reordered = mset (tu_callables_table three_callees_unit)"
    by (simp add: three_callees_reordered_def three_callees_unit_def)
  have ran: "generate_uncached cached_env three_callees_unit ?cw =
       (Inr three_callees_result,
        (Map.empty, [''infer types'', ''check'', ''emit a'', ''emit b'', ''emit c'']))"
    "generate_uncached cached_env ?reordered ?cw =
       (Inr three_callees_result,
        (Map.empty, [''infer types'', ''check'', ''emit a'', ''emit b'', ''emit c'']))"
    unfolding cached_env_def
    by (simp_all add: generate_uncached_three_callees note_beside_cache_def)
  have sorted_run: "generate_code_v2 cached_env three_callees_unit ?cw =
       (Inr three_callees_result,
        (Map.empty(three_callees_unit \<mapsto> three_callees_result),
         [''infer types'', ''check'', ''emit a'', ''emit b'', ''emit c'']))"
    using flags by (simp add: generate_code_v2_def ran store_if_not_present_def)
  have reordered_run: "generate_code_v2 cached_env ?reordered ?cw =
       (Inr three_callees_result,
        (Map.empty(?reordered \<mapsto> three_callees_result),
         [''infer types'', ''check'', ''emit a'', ''emit b'', ''emit c'']))"
    using flags by (simp add: generate_code_v2_def ran store_if_not_present_def)
  have first: "prg_ast (hd (tcgr_device_programs three_callees_result))
       = ''declare device a; declare device b; declare device c; device a''"
    by (simp add: three_callees_result_def)
  have upstream: "run_upstream_stages splitting_env three_callees_unit ?cw
                    = (Inr three_callees_unit, (Map.empty, [''infer types'']))"
    unfolding splitting_env_stages cached_env_def
    by (simp add: example_upstream_stages [OF three_callees_linearized(1)]
        note_beside_cache_def)
  have checks: "pre_codegen_checks splitting_env (diverge_callee_entrypoints three_callees_unit)
                  (Map.empty, [''infer types''])
                = (Inr (), (Map.empty, [''infer types'', ''check'']))"
    unfolding splitting_env_stages
    by (simp add: cached_env_def example_env_on_def note_beside_cache_def)
  have ids: "kernel_func_ids (tu_callables_table (diverge_callee_entrypoints three_callees_unit))
               = [''a''] @ ''b'' # [''c'']"
    by (simp add: diverge_three_callees_unit three_callees_ids)
  have driven: "drive_in_order (generate_code_for_a_single_kernel splitting_env)
                  (diverge_callee_entrypoints three_callees_unit) [''a'']
                  (Map.empty, [''infer types'', ''check''])
                = (Inr [\<lparr>cgr_host_program = None,
                         cgr_device_programs =
                           [\<lparr>prg_name = ''a'', prg_is_device_program = True,
                             prg_ast = ''device a''\<rparr>],
                         cgr_implemented_domains = [],
                         cgr_host_preambles = [],
                         cgr_device_preambles = []\<rparr>],
                   (Map.empty, [''infer types'', ''check'', ''emit a'']))"
    by (simp add: diverge_three_callees_unit)
       (simp add: three_callees_unit_def tu_getitem_def splitting_driver note_beside_cache_def)
  have one: "\<forall>c \<in> set (callee_results (diverge_callee_entrypoints three_callees_unit) [''a'']
                          [\<lparr>cgr_host_program = None,
                            cgr_device_programs =
                              [\<lparr>prg_name = ''a'', prg_is_device_program = True,
                                prg_ast = ''device a''\<rparr>],
                            cgr_implemented_domains = [],
                            cgr_host_preambles = [],
                            cgr_device_preambles = []\<rparr>]).
               length (cgr_device_programs c) = 1"
    by (simp add: callee_results_def)
  have knl: "tu_getitem (diverge_callee_entrypoints three_callees_unit) ''b''
               = Inr (kernel_named ''b'' [])"
    by (simp add: diverge_three_callees_unit) (simp add: three_callees_unit_def tu_getitem_def)
  have cgr: "generate_code_for_a_single_kernel splitting_env (kernel_named ''b'' [])
               (tu_callables_table (diverge_callee_entrypoints three_callees_unit))
               (tu_target (diverge_callee_entrypoints three_callees_unit))
               (''b'' \<in> tu_entrypoints (diverge_callee_entrypoints three_callees_unit))
               (Map.empty, [''infer types'', ''check'', ''emit a''])
             = (Inr \<lparr>cgr_host_program = None,
                     cgr_device_programs =
                       [\<lparr>prg_name = ''b'', prg_is_device_program = True,
                         prg_ast = ''device b, part 1''\<rparr>,
                        \<lparr>prg_name = ''b_0'', prg_is_device_program = True,
                         prg_ast = ''device b, part 2''\<rparr>],
                     cgr_implemented_domains = [],
                     cgr_host_preambles = [],
                     cgr_device_preambles = []\<rparr>,
                (Map.empty, [''infer types'', ''check'', ''emit a'', ''emit b'']))"
    by (simp add: diverge_three_callees_unit)
       (simp add: three_callees_unit_def splitting_driver note_beside_cache_def)
  have callee: "''b'' \<notin> tu_entrypoints (diverge_callee_entrypoints three_callees_unit)"
    by (simp add: diverge_three_callees_unit) (simp add: three_callees_unit_def)
  have other: "length (cgr_device_programs
                  \<lparr>cgr_host_program = None,
                   cgr_device_programs =
                     [\<lparr>prg_name = ''b'', prg_is_device_program = True,
                       prg_ast = ''device b, part 1''\<rparr>,
                      \<lparr>prg_name = ''b_0'', prg_is_device_program = True,
                       prg_ast = ''device b, part 2''\<rparr>],
                   cgr_implemented_domains = [],
                   cgr_host_preambles = [],
                   cgr_device_preambles = []\<rparr>) \<noteq> 1"
    by simp
  note fails = kernels_are_driven_in_sorted_order [OF miss, THEN conjunct2, THEN conjunct1]
  from fails upstream checks ids driven one knl cgr callee other
  have "generate_code_v2 splitting_env three_callees_unit ?cw =
       (Inl AssertionError, (Map.empty, [''infer types'', ''check'', ''emit a'', ''emit b'']))"
    by blast
  with flags permuted sorted_run reordered_run first show ?thesis
    by (simp add: splitting_env_flags three_callees_ids three_callees_reordered_ids)
qed

subsection \<open>What a result requires\<close>

lemma in_set_update:
  "p \<in> set (AList.update k v al) \<Longrightarrow> p = (k, v) \<or> p \<in> set al"
  by (induction al) (auto split: if_splits)

lemma rename_callables_no_kernel:
  "\<forall>p \<in> set items. \<not> is_CallableKernel (snd p) \<Longrightarrow>
   \<forall>p \<in> set new_callables. \<not> is_CallableKernel (snd p) \<Longrightarrow>
   \<forall>p \<in> set (rename_callables todo_renames items new_callables). \<not> is_CallableKernel (snd p)"
proof (induction items arbitrary: new_callables)
  case Nil
  then show ?case by simp
next
  case (Cons item items)
  obtain name clbl where item: "item = (name, clbl)" by (cases item)
  with Cons.prems(1) obtain n where clbl: "clbl = ScalarCallable n"
    by (cases clbl) auto
  have "\<forall>p \<in> set (AList.update (renamed todo_renames name) clbl new_callables).
          \<not> is_CallableKernel (snd p)"
    using Cons.prems(2) clbl by (auto dest: in_set_update)
  with Cons.prems(1) Cons.IH [of "AList.update (renamed todo_renames name) clbl new_callables"]
  show ?case by (simp add: item clbl Let_def)
qed

lemma diverge_no_kernel:
  "\<forall>p \<in> set (tu_callables_table t_unit). \<not> is_CallableKernel (snd p) \<Longrightarrow>
   \<forall>p \<in> set (tu_callables_table (diverge_callee_entrypoints t_unit)). \<not> is_CallableKernel (snd p)"
  unfolding diverge_callee_entrypoints_def Let_def
  by (simp, rule rename_callables_no_kernel) simp_all

lemma kernel_func_ids_no_kernel:
  assumes "\<forall>p \<in> set table. \<not> is_CallableKernel (snd p)"
  shows "kernel_func_ids table = []"
proof -
  have "filter (\<lambda>(key, val). is_CallableKernel val) table = []"
    using assms by (auto simp: filter_empty_conv)
  then show ?thesis by (simp add: kernel_func_ids_def)
qed

lemma assemble_no_kernel:
  assumes "\<forall>p \<in> set (tu_callables_table t_unit). \<not> is_CallableKernel (snd p)"
  shows "assemble_t_unit env t_unit w =
           (case collect_preambles env (tu_target t_unit) (tu_callables_table t_unit) [] w of
              (Inl e, w') \<Rightarrow> (Inl e, w')
            | (Inr device_preambles, w') \<Rightarrow> (Inl IndexError, w'))"
  by (simp add: assemble_t_unit_def kernel_func_ids_no_kernel [OF assms] add_callee_fdecls_def
      split: prod.splits sum.splits)

text \<open>
  C10. Past the cache lookup, a result of \<^verbatim>\<open>generate_code_v2\<close> requires that the unit
  has a kernel among its callables and that the kernels have given a device program: the
  device programs of a result are never empty. A unit that comes out of the upstream
  stages with no \<^verbatim>\<open>CallableKernel\<close> in its table never gets a result: the divergence
  adds no kernel, the per-kernel loop collects no device program, and when the checks and
  the preambles of the callables have passed, reading the first device program raises
  \<^verbatim>\<open>IndexError\<close>; nothing is stored in the cache, which is left as the stages left it.
\<close>

theorem no_kernel_no_result:
  assumes miss: "CACHING_ENABLED env \<longrightarrow> fst cw t_unit = None \<and> \<not> ABORT_ON_CACHE_MISS env"
  shows "(\<forall>r cw'. generate_code_v2 env t_unit cw = (Inr r, cw') \<longrightarrow>
            tcgr_device_programs r \<noteq> []
            \<and> (\<exists>t1 cw1. run_upstream_stages env t_unit cw = (Inr t1, cw1)
                  \<and> (\<exists>p \<in> set (tu_callables_table t1). is_CallableKernel (snd p))))
       \<and> ((\<forall>t1 cw1. run_upstream_stages env t_unit cw = (Inr t1, cw1) \<longrightarrow>
               (\<forall>p \<in> set (tu_callables_table t1). \<not> is_CallableKernel (snd p))) \<longrightarrow>
            (\<forall>r. fst (generate_code_v2 env t_unit cw) \<noteq> Inr r)
            \<and> (\<forall>t1 cw1 u cw2 device_preambles cw3.
                  run_upstream_stages env t_unit cw = (Inr t1, cw1) \<and>
                  pre_codegen_checks env (diverge_callee_entrypoints t1) cw1 = (Inr u, cw2) \<and>
                  collect_preambles env (tu_target (diverge_callee_entrypoints t1))
                    (tu_callables_table (diverge_callee_entrypoints t1)) [] cw2
                    = (Inr device_preambles, cw3) \<longrightarrow>
                  generate_code_v2 env t_unit cw = (Inl IndexError, cw3)))"
proof -
  have assembled: "assemble_t_unit env (diverge_callee_entrypoints t1) v =
           (case collect_preambles env (tu_target (diverge_callee_entrypoints t1))
                   (tu_callables_table (diverge_callee_entrypoints t1)) [] v of
              (Inl e, w') \<Rightarrow> (Inl e, w')
            | (Inr device_preambles, w') \<Rightarrow> (Inl IndexError, w'))"
    if "\<forall>p \<in> set (tu_callables_table t1). \<not> is_CallableKernel (snd p)" for t1 v
    using that by (intro assemble_no_kernel diverge_no_kernel)
  have requires: "tcgr_device_programs r \<noteq> []
            \<and> (\<exists>t1 cw1. run_upstream_stages env t_unit cw = (Inr t1, cw1)
                  \<and> (\<exists>p \<in> set (tu_callables_table t1). is_CallableKernel (snd p)))"
    if "generate_code_v2 env t_unit cw = (Inr r, cw')" for r cw'
  proof -
    from generate_code_v2_result [OF miss that] obtain t1 cw1 u cw2 cw3 where
      upstream: "run_upstream_stages env t_unit cw = (Inr t1, cw1)"
        and assembly: "assemble_t_unit env (diverge_callee_entrypoints t1) cw2 = (Inr r, cw3)"
      by blast
    from assemble_t_unit_success [OF assembly]
    have nonempty: "tcgr_device_programs r \<noteq> []" by auto
    have "\<exists>p \<in> set (tu_callables_table t1). is_CallableKernel (snd p)"
    proof (rule ccontr)
      assume "\<not> (\<exists>p \<in> set (tu_callables_table t1). is_CallableKernel (snd p))"
      then have "\<forall>p \<in> set (tu_callables_table t1). \<not> is_CallableKernel (snd p)"
        by blast
      from assembled [OF this, of cw2] assembly show False
        by (auto split: prod.splits sum.splits)
    qed
    with nonempty upstream show ?thesis by blast
  qed
  have never: "fst (generate_code_v2 env t_unit cw) \<noteq> Inr r"
    if none: "\<forall>t1 cw1. run_upstream_stages env t_unit cw = (Inr t1, cw1) \<longrightarrow>
               (\<forall>p \<in> set (tu_callables_table t1). \<not> is_CallableKernel (snd p))"
    for r
  proof
    assume "fst (generate_code_v2 env t_unit cw) = Inr r"
    then obtain cw' where "generate_code_v2 env t_unit cw = (Inr r, cw')"
      by (cases "generate_code_v2 env t_unit cw") auto
    from requires [OF this] none show False by blast
  qed
  have fails: "generate_code_v2 env t_unit cw = (Inl IndexError, cw3)"
    if none: "\<forall>t1 cw1. run_upstream_stages env t_unit cw = (Inr t1, cw1) \<longrightarrow>
               (\<forall>p \<in> set (tu_callables_table t1). \<not> is_CallableKernel (snd p))"
      and stages: "run_upstream_stages env t_unit cw = (Inr t1, cw1)"
      and checks: "pre_codegen_checks env (diverge_callee_entrypoints t1) cw1 = (Inr u, cw2)"
      and preambles: "collect_preambles env (tu_target (diverge_callee_entrypoints t1))
               (tu_callables_table (diverge_callee_entrypoints t1)) [] cw2
               = (Inr device_preambles, cw3)"
    for t1 cw1 u cw2 device_preambles cw3
  proof -
    from none stages
    have "\<forall>p \<in> set (tu_callables_table t1). \<not> is_CallableKernel (snd p)"
      by blast
    from assembled [OF this, of cw2] preambles
    have "assemble_t_unit env (diverge_callee_entrypoints t1) cw2 = (Inl IndexError, cw3)"
      by simp
    with miss stages checks show ?thesis
      by (rule generate_code_v2_error)
  qed
  from requires never fails show ?thesis by blast
qed

lemma diverge_no_kernel_unit: "diverge_callee_entrypoints no_kernel_unit = no_kernel_unit"
  by (simp add: diverge_callee_entrypoints_def Let_def no_kernel_unit_def
      get_reachable_resolved_callable_ids_def renamed_def)

theorem no_kernel_no_result_witness:
  "CACHING_ENABLED cached_env
   \<and> (Map.empty :: (string, string, unit, string) code_gen_cache) no_kernel_unit = None
   \<and> \<not> ABORT_ON_CACHE_MISS cached_env
   \<and> run_upstream_stages cached_env no_kernel_unit (Map.empty, [])
       = (Inr no_kernel_unit, (Map.empty, [''infer types'']))
   \<and> list_all (\<lambda>p. \<not> is_CallableKernel (snd p)) (tu_callables_table no_kernel_unit)
   \<and> generate_code_v2 cached_env no_kernel_unit (Map.empty, [])
       = (Inl IndexError, (Map.empty, [''infer types'', ''check'']))"
proof -
  let ?cw = "(Map.empty, []) ::
               (string, string, unit, string) code_gen_cache \<times> string list"
  have flags: "CACHING_ENABLED cached_env \<and> \<not> ABORT_ON_CACHE_MISS cached_env"
    by (simp add: cached_env_def example_env_on_def)
  then have miss: "CACHING_ENABLED cached_env \<longrightarrow>
      fst ?cw no_kernel_unit = None \<and> \<not> ABORT_ON_CACHE_MISS cached_env"
    by simp
  have stages: "run_upstream_stages cached_env no_kernel_unit ?cw =
                  (Inr no_kernel_unit, (Map.empty, [''infer types'']))"
  proof -
    have "list_all (\<lambda>(name, clbl). case clbl of CallableKernel k \<Rightarrow> knl_state k = LINEARIZED
                                   | ScalarCallable n \<Rightarrow> True)
            (tu_callables_table no_kernel_unit)"
      by (simp add: no_kernel_unit_def)
    then show ?thesis
      unfolding cached_env_def
      by (simp add: example_upstream_stages note_beside_cache_def)
  qed
  have none: "list_all (\<lambda>p. \<not> is_CallableKernel (snd p)) (tu_callables_table no_kernel_unit)"
    by (simp add: no_kernel_unit_def)
  have upstream: "\<forall>t1 cw1. run_upstream_stages cached_env no_kernel_unit ?cw = (Inr t1, cw1) \<longrightarrow>
         (\<forall>p \<in> set (tu_callables_table t1). \<not> is_CallableKernel (snd p))"
    by (simp add: stages) (simp add: no_kernel_unit_def)
  have checks: "pre_codegen_checks cached_env (diverge_callee_entrypoints no_kernel_unit)
                  (Map.empty, [''infer types''])
                = (Inr (), (Map.empty, [''infer types'', ''check'']))"
    by (simp add: cached_env_def example_env_on_def note_beside_cache_def)
  have preambles: "collect_preambles cached_env
                     (tu_target (diverge_callee_entrypoints no_kernel_unit))
                     (tu_callables_table (diverge_callee_entrypoints no_kernel_unit)) []
                     (Map.empty, [''infer types'', ''check''])
                   = (Inr [], (Map.empty, [''infer types'', ''check'']))"
    by (simp add: diverge_no_kernel_unit)
       (simp add: no_kernel_unit_def cached_env_def example_env_on_def)
  from no_kernel_no_result [OF miss] upstream stages checks preambles
  have "generate_code_v2 cached_env no_kernel_unit ?cw
          = (Inl IndexError, (Map.empty, [''infer types'', ''check'']))"
    by blast
  with flags stages none show ?thesis by simp
qed

end
